theory Spec2Isabelle
  imports Main
begin

section \<open>Python values, the object store and the console\<close>

text \<open>
  The lessons and the exercise notebook are plain Python. Objects live in a store and are
  handled through references, so the store is explicit here: a list of objects, a reference
  being an index into it. Python never frees an object that is still referenced, so the
  store only grows; allocating appends, and the new reference is the old length.

  Attribute types follow the annotations of the notebook (\<open>title: str\<close>, \<open>year: int\<close>,
  \<open>name: str\<close>, \<open>age: int\<close>); the attributes that carry no annotation (\<open>file_size\<close>,
  \<open>duration\<close>, \<open>rating\<close>, \<open>balance\<close>) are integers, as in every call the lessons make.
  A string is a list of characters, each read as a code point below 256.

  A method is written as the call \<open>x.method(args)\<close> on a reference \<open>x\<close>: when the
  object is not of a class that has the method or the attribute, the call raises
  \<open>AttributeError\<close>.
\<close>

type_synonym ref = nat

datatype exn =
    AttributeError
  | TypeError
  | NameError string
  | ValueError string
  | InsufficientFundsError string
  | FileNotFoundError string
  | FileExistsError string

text \<open>What \<open>Book.__init__\<close> stores on \<open>self\<close>; \<open>EBook\<close> and \<open>AudioBook\<close> inherit it.\<close>

record book_fields =
  title :: string
  author :: string
  year :: int

datatype obj =
    BookObj book_fields
  | EBookObj book_fields int
  | AudioBookObj book_fields int
  | UserObj string int
  | ListObj "ref list"
  | LibraryObj string ref
  | LibraryMemberObj ref ref
  | RatingObj int
  | BankAccountObj int
  | FileManagerObj string

text \<open>
  A class object as \<open>type.__new__\<close> builds it: its name, its bases and a copy of the
  namespace it is given. A namespace lists the data attributes, of which the docstring
  \<open>__doc__\<close> is one; the methods of a class are the definitions of this theory and are
  not listed, nor are the entries the interpreter adds by itself. The values the lessons
  put in a namespace or in a dictionary are strings, integers and \<open>None\<close>.
\<close>

datatype attr = ANone | AInt int | AStr string

datatype pyclass = PyClass string "pyclass list" "(string \<times> attr) list"

datatype binding = Obj ref | Cls pyclass

text \<open>
  The state of a run: the object store, the global names of the interpreter, what has been
  printed, the files of the working directory with their contents, and the interpreter's
  setting \<open>sys.int_max_str_digits\<close>: the longest integer, in decimal digits, that may be
  converted to a string, where 0 switches the limit off. A new interpreter has the limit
  4300, and neither the notebook nor a lesson changes it; the interpreter accepts no
  limit below 640.
\<close>

record state =
  heap :: "obj list"
  globals :: "string \<rightharpoonup> binding"
  stdout :: string
  files :: "string \<rightharpoonup> string"
  int_max_str_digits :: nat

definition init_state :: state where
  "init_state =
     \<lparr>heap = [], globals = Map.empty, stdout = [], files = Map.empty,
      int_max_str_digits = 4300\<rparr>"

text \<open>
  A statement or a call is a computation: it takes the state and returns the state it
  leaves, with either the value returned or the exception raised.
\<close>

type_synonym 'a comp = "state \<Rightarrow> (exn + 'a) \<times> state"

definition return_ok :: "'a \<Rightarrow> 'a comp" where
  "return_ok x st = (Inr x, st)"

definition raise :: "exn \<Rightarrow> 'a comp" where
  "raise e st = (Inl e, st)"

definition then_do :: "'a comp \<Rightarrow> ('a \<Rightarrow> 'b comp) \<Rightarrow> 'b comp" where
  "then_do m f st = (case m st of (Inl e, st1) \<Rightarrow> (Inl e, st1) | (Inr x, st1) \<Rightarrow> f x st1)"

definition lookup :: "state \<Rightarrow> ref \<Rightarrow> obj option" where
  "lookup st r = (if r < length (heap st) then Some (heap st ! r) else None)"

definition alloc :: "obj \<Rightarrow> ref comp" where
  "alloc ob st = (Inr (length (heap st)), st\<lparr>heap := heap st @ [ob]\<rparr>)"

text \<open>Assigning to the attributes of an object that exists, which every caller has looked up.\<close>

definition store :: "ref \<Rightarrow> obj \<Rightarrow> unit comp" where
  "store r ob st = (Inr (), st\<lparr>heap := (heap st)[r := ob]\<rparr>)"

definition newline :: char where
  "newline = CHR 0x0A"

text \<open>\<open>print(s)\<close> for a string \<open>s\<close>: the text and a line feed.\<close>

definition print :: "string \<Rightarrow> unit comp" where
  "print s st = (Inr (), st\<lparr>stdout := stdout st @ s @ [newline]\<rparr>)"

subsection \<open>\<open>str\<close> of an integer, \<open>repr\<close> of a string\<close>

text \<open>
  \<open>str_int\<close> is the decimal text of an integer. The interpreter produces it only for an
  integer within the digit limit: \<open>format_int\<close> below is the conversion \<open>str(i)\<close>, which
  is also what an f-string and \<open>repr\<close> do with an integer.
\<close>

text \<open>The digit for a number below 16; every use below is on such a number.\<close>

definition digit_char :: "nat \<Rightarrow> char" where
  "digit_char d = ''0123456789abcdef'' ! d"

fun str_nat :: "nat \<Rightarrow> string" where
  "str_nat n = (if n < 10 then [digit_char n] else str_nat (n div 10) @ [digit_char (n mod 10)])"

declare str_nat.simps [simp del]

definition str_int :: "int \<Rightarrow> string" where
  "str_int i = (if i < 0 then CHR ''-'' # str_nat (nat (- i)) else str_nat (nat i))"

text \<open>The number of decimal digits of an integer; the sign does not count.\<close>

definition str_digits :: "int \<Rightarrow> nat" where
  "str_digits i = length (str_nat (nat \<bar>i\<bar>))"

definition digit_limit_error :: "nat \<Rightarrow> exn" where
  "digit_limit_error limit =
     ValueError (''Exceeds the limit ('' @ str_nat limit
       @ '' digits) for integer string conversion; ''
       @ ''use sys.set_int_max_str_digits() to increase the limit'')"

definition within_digit_limit :: "state \<Rightarrow> int \<Rightarrow> bool" where
  "within_digit_limit st i \<longleftrightarrow>
     int_max_str_digits st = 0 \<or> str_digits i \<le> int_max_str_digits st"

text \<open>
  \<open>str(i)\<close> for an integer \<open>i\<close>: \<open>ValueError\<close> when the limit is on and \<open>i\<close> has more
  digits than it allows.
\<close>

definition format_int :: "int \<Rightarrow> string comp" where
  "format_int i st =
     (if within_digit_limit st i then (Inr (str_int i), st)
      else (Inl (digit_limit_error (int_max_str_digits st)), st))"

text \<open>
  \<open>repr\<close> of a string: single quotes, unless the string holds a single quote and no
  double quote; the backslash and the chosen quote are escaped, and so is every character
  that is not printable: the control characters, the no-break space and the soft hyphen.
\<close>

definition repr_char :: "char \<Rightarrow> char \<Rightarrow> string" where
  "repr_char q c =
     (if c = CHR 0x5C then [CHR 0x5C, CHR 0x5C]
      else if c = q then [CHR 0x5C, q]
      else if c = CHR 0x0A then [CHR 0x5C, CHR ''n'']
      else if c = CHR 0x0D then [CHR 0x5C, CHR ''r'']
      else if c = CHR 0x09 then [CHR 0x5C, CHR ''t'']
      else if (of_char c :: nat) < 32 \<or> (127 \<le> (of_char c :: nat) \<and> (of_char c :: nat) \<le> 160)
              \<or> (of_char c :: nat) = 173
        then [CHR 0x5C, CHR ''x'', digit_char (of_char c div 16), digit_char (of_char c mod 16)]
      else [c])"

definition repr_str :: "string \<Rightarrow> string" where
  "repr_str s =
     (let q = (if CHR 0x27 \<in> set s \<and> CHR 0x22 \<notin> set s then CHR 0x22 else CHR 0x27)
      in [q] @ concat (map (repr_char q) s) @ [q])"

fun join :: "string \<Rightarrow> string list \<Rightarrow> string" where
  "join sep [] = []"
| "join sep [x] = x"
| "join sep (x # y # ys) = x @ sep @ join sep (y # ys)"

text \<open>\<open>repr\<close> of a list of strings, which is what \<open>print\<close> shows for one.\<close>

definition repr_str_list :: "string list \<Rightarrow> string" where
  "repr_str_list xs = ''['' @ join '', '' (map repr_str xs) @ '']''"

section \<open>The exercise notebook: the library classes\<close>

subsection \<open>Step 1: \<open>Book\<close>\<close>

definition Book_init :: "string \<Rightarrow> string \<Rightarrow> int \<Rightarrow> book_fields" where
  "Book_init t a y = \<lparr>title = t, author = a, year = y\<rparr>"

text \<open>The call \<open>Book(title, author, year)\<close>.\<close>

definition new_Book :: "string \<Rightarrow> string \<Rightarrow> int \<Rightarrow> ref comp" where
  "new_Book t a y = alloc (BookObj (Book_init t a y))"

text \<open>
  The attributes \<open>Book.__init__\<close> has set on an object; an object of another class has
  none of them, and reading one raises \<open>AttributeError\<close>.
\<close>

definition book_attrs :: "ref \<Rightarrow> book_fields comp" where
  "book_attrs self st =
     (case lookup st self of
        Some (BookObj f) \<Rightarrow> (Inr f, st)
      | Some (EBookObj f s) \<Rightarrow> (Inr f, st)
      | Some (AudioBookObj f d) \<Rightarrow> (Inr f, st)
      | _ \<Rightarrow> (Inl AttributeError, st))"

definition Book_get_info :: "ref \<Rightarrow> string comp" where
  "Book_get_info self =
     then_do (book_attrs self) (\<lambda>f.
     then_do (format_int (year f)) (\<lambda>y.
       return_ok (title f @ '' by '' @ author f @ '', published in '' @ y)))"

subsection \<open>Step 2: \<open>User\<close>, with the private \<open>__name\<close> and \<open>__age\<close>\<close>

definition new_User :: "string \<Rightarrow> int \<Rightarrow> ref comp" where
  "new_User name age = alloc (UserObj name age)"

definition get_user_info :: "ref \<Rightarrow> string comp" where
  "get_user_info self st =
     (case lookup st self of
        Some (UserObj name age) \<Rightarrow>
          then_do (format_int age) (\<lambda>a. return_ok (''User: '' @ name @ '', Age: '' @ a)) st
      | _ \<Rightarrow> (Inl AttributeError, st))"

definition set_age :: "ref \<Rightarrow> int \<Rightarrow> unit comp" where
  "set_age self new_age st =
     (case lookup st self of
        Some (UserObj name age) \<Rightarrow>
          (if new_age > 0 then store self (UserObj name new_age) st
           else print ''Invalid age!'' st)
      | _ \<Rightarrow> (Inl AttributeError, st))"

subsection \<open>Lists of references\<close>

text \<open>
  The elements of a list, as \<open>len\<close> and a \<open>for\<close> clause read them; an object of the
  classes here that is not a list has no length and cannot be iterated, which is a
  \<open>TypeError\<close>. \<open>append\<close> is an attribute that only a list has.
\<close>

definition list_items :: "ref \<Rightarrow> ref list comp" where
  "list_items l st =
     (case lookup st l of
        Some (ListObj xs) \<Rightarrow> (Inr xs, st)
      | _ \<Rightarrow> (Inl TypeError, st))"

definition list_append :: "ref \<Rightarrow> ref \<Rightarrow> unit comp" where
  "list_append l x st =
     (case lookup st l of
        Some (ListObj xs) \<Rightarrow> store l (ListObj (xs @ [x])) st
      | _ \<Rightarrow> (Inl AttributeError, st))"

subsection \<open>Step 3: \<open>Library\<close>\<close>

text \<open>
  \<open>Library(name)\<close>: \<open>self.books = []\<close> makes a new list object, and the library holds
  a reference to it. The integer that \<open>len\<close> returns is the length of a list in memory,
  at most \<open>sys.maxsize\<close>, which has 19 digits and is within every digit limit the
  interpreter accepts (640 at least); its text is \<open>str_int\<close> of it.
\<close>

definition new_Library :: "string \<Rightarrow> ref comp" where
  "new_Library name =
     then_do (alloc (ListObj [])) (\<lambda>l. alloc (LibraryObj name l))"

definition Library_name :: "ref \<Rightarrow> string comp" where
  "Library_name self st =
     (case lookup st self of
        Some (LibraryObj name l) \<Rightarrow> (Inr name, st)
      | _ \<Rightarrow> (Inl AttributeError, st))"

definition Library_books :: "ref \<Rightarrow> ref comp" where
  "Library_books self st =
     (case lookup st self of
        Some (LibraryObj name l) \<Rightarrow> (Inr l, st)
      | _ \<Rightarrow> (Inl AttributeError, st))"

definition add_book :: "ref \<Rightarrow> ref \<Rightarrow> unit comp" where
  "add_book self book =
     then_do (Library_books self) (\<lambda>l. list_append l book)"

definition Library_str :: "ref \<Rightarrow> string comp" where
  "Library_str self =
     then_do (Library_name self) (\<lambda>name.
     then_do (Library_books self) (\<lambda>l.
     then_do (list_items l) (\<lambda>xs.
       return_ok (''Library: '' @ name @ '' with '' @ str_int (int (length xs)) @ '' books''))))"

definition Library_len :: "ref \<Rightarrow> int comp" where
  "Library_len self =
     then_do (Library_books self) (\<lambda>l.
     then_do (list_items l) (\<lambda>xs.
       return_ok (int (length xs))))"

subsection \<open>Steps 4 and 5: \<open>EBook\<close> and \<open>AudioBook\<close>, subclasses of \<open>Book\<close>\<close>

definition new_EBook :: "string \<Rightarrow> string \<Rightarrow> int \<Rightarrow> int \<Rightarrow> ref comp" where
  "new_EBook t a y file_size = alloc (EBookObj (Book_init t a y) file_size)"

definition EBook_file_size :: "ref \<Rightarrow> int comp" where
  "EBook_file_size self st =
     (case lookup st self of
        Some (EBookObj f s) \<Rightarrow> (Inr s, st)
      | _ \<Rightarrow> (Inl AttributeError, st))"

definition EBook_get_info :: "ref \<Rightarrow> string comp" where
  "EBook_get_info self =
     then_do (Book_get_info self) (\<lambda>s.
     then_do (EBook_file_size self) (\<lambda>n.
     then_do (format_int n) (\<lambda>size.
       return_ok (s @ '' (File size: '' @ size @ ''MB)''))))"

definition new_AudioBook :: "string \<Rightarrow> string \<Rightarrow> int \<Rightarrow> int \<Rightarrow> ref comp" where
  "new_AudioBook t a y duration = alloc (AudioBookObj (Book_init t a y) duration)"

definition AudioBook_duration :: "ref \<Rightarrow> int comp" where
  "AudioBook_duration self st =
     (case lookup st self of
        Some (AudioBookObj f d) \<Rightarrow> (Inr d, st)
      | _ \<Rightarrow> (Inl AttributeError, st))"

definition AudioBook_get_info :: "ref \<Rightarrow> string comp" where
  "AudioBook_get_info self =
     then_do (Book_get_info self) (\<lambda>s.
     then_do (AudioBook_duration self) (\<lambda>n.
     then_do (format_int n) (\<lambda>minutes.
       return_ok (s @ '' (Duration: '' @ minutes @ '' min)''))))"

text \<open>
  The call \<open>x.get_info()\<close>: the method of the class of \<open>x\<close> runs. A class that
  defines no \<open>get_info\<close> raises \<open>AttributeError\<close>.
\<close>

definition get_info :: "ref \<Rightarrow> string comp" where
  "get_info self st =
     (case lookup st self of
        Some (BookObj f) \<Rightarrow> Book_get_info self st
      | Some (EBookObj f s) \<Rightarrow> EBook_get_info self st
      | Some (AudioBookObj f d) \<Rightarrow> AudioBook_get_info self st
      | _ \<Rightarrow> (Inl AttributeError, st))"

subsection \<open>Step 6: \<open>LibraryMember\<close>\<close>

definition new_LibraryMember :: "ref \<Rightarrow> ref comp" where
  "new_LibraryMember user =
     then_do (alloc (ListObj [])) (\<lambda>l. alloc (LibraryMemberObj user l))"

definition LibraryMember_borrowed_books :: "ref \<Rightarrow> ref comp" where
  "LibraryMember_borrowed_books self st =
     (case lookup st self of
        Some (LibraryMemberObj user l) \<Rightarrow> (Inr l, st)
      | _ \<Rightarrow> (Inl AttributeError, st))"

definition borrow_book :: "ref \<Rightarrow> ref \<Rightarrow> unit comp" where
  "borrow_book self book =
     then_do (LibraryMember_borrowed_books self) (\<lambda>l. list_append l book)"

text \<open>The list comprehension: one call per element, in order, stopping at the first raise.\<close>

fun for_each :: "('a \<Rightarrow> 'b comp) \<Rightarrow> 'a list \<Rightarrow> 'b list comp" where
  "for_each f [] = return_ok []"
| "for_each f (x # xs) =
     then_do (f x) (\<lambda>y. then_do (for_each f xs) (\<lambda>ys. return_ok (y # ys)))"

definition get_borrowed_books :: "ref \<Rightarrow> string list comp" where
  "get_borrowed_books self =
     then_do (LibraryMember_borrowed_books self) (\<lambda>l.
     then_do (list_items l) (\<lambda>books.
       for_each get_info books))"

subsection \<open>Step 7: \<open>Rating\<close>\<close>

definition new_Rating :: "int \<Rightarrow> ref comp" where
  "new_Rating rating = alloc (RatingObj rating)"

definition Rating_rating :: "ref \<Rightarrow> int comp" where
  "Rating_rating self st =
     (case lookup st self of
        Some (RatingObj r) \<Rightarrow> (Inr r, st)
      | _ \<Rightarrow> (Inl AttributeError, st))"

definition Rating_add :: "ref \<Rightarrow> ref \<Rightarrow> ref comp" where
  "Rating_add self other =
     then_do (Rating_rating self) (\<lambda>a.
     then_do (Rating_rating other) (\<lambda>b.
       new_Rating (a + b)))"

definition Rating_str :: "ref \<Rightarrow> string comp" where
  "Rating_str self =
     then_do (Rating_rating self) (\<lambda>r.
     then_do (format_int r) (\<lambda>text.
       return_ok (''Rating: '' @ text @ ''/5'')))"

subsection \<open>Step 8: the metaclass \<open>MetaBook\<close>\<close>

text \<open>\<open>dct[key] = value\<close> on a dictionary kept in insertion order.\<close>

fun dict_set :: "string \<Rightarrow> attr \<Rightarrow> (string \<times> attr) list \<Rightarrow> (string \<times> attr) list" where
  "dict_set k v [] = [(k, v)]"
| "dict_set k v ((k', v') # kvs) =
     (if k' = k then (k, v) # kvs else (k', v') # dict_set k v kvs)"

definition type_new :: "string \<Rightarrow> pyclass list \<Rightarrow> (string \<times> attr) list \<Rightarrow> pyclass" where
  "type_new name bases dct = PyClass name bases dct"

definition MetaBook_new :: "string \<Rightarrow> pyclass list \<Rightarrow> (string \<times> attr) list \<Rightarrow> pyclass" where
  "MetaBook_new name bases dct = type_new name bases (dict_set ''category'' (AStr ''General'') dct)"

fun first_some :: "'a option list \<Rightarrow> 'a option" where
  "first_some [] = None"
| "first_some (Some x # xs) = Some x"
| "first_some (None # xs) = first_some xs"

text \<open>
  Reading an attribute of a class: the namespace of the class itself first, then the
  bases from left to right, which is the method resolution order for bases that share
  no ancestor.
\<close>

fun class_getattr :: "pyclass \<Rightarrow> string \<Rightarrow> attr option" where
  "class_getattr (PyClass name bases dct) a =
     (case map_of dct a of
        Some v \<Rightarrow> Some v
      | None \<Rightarrow> first_some (map (\<lambda>b. class_getattr b a) bases))"

text \<open>\<open>str\<close> of a value of a namespace.\<close>

definition str_attr :: "attr \<Rightarrow> string comp" where
  "str_attr v =
     (case v of ANone \<Rightarrow> return_ok ''None'' | AInt i \<Rightarrow> format_int i | AStr s \<Rightarrow> return_ok s)"

section \<open>The exercise notebook: the cells\<close>

text \<open>
  The kernel keeps the global names between cells. A name that no cell has bound yet
  raises \<open>NameError\<close>.
\<close>

definition get_var :: "string \<Rightarrow> binding comp" where
  "get_var x st = (case globals st x of Some b \<Rightarrow> (Inr b, st) | None \<Rightarrow> (Inl (NameError x), st))"

definition set_var :: "string \<Rightarrow> binding \<Rightarrow> unit comp" where
  "set_var x b st = (Inr (), st\<lparr>globals := (globals st)(x \<mapsto> b)\<rparr>)"

text \<open>
  A global name used as the receiver or the argument of one of the methods above; the
  notebook uses only names of instances there.
\<close>

definition get_ref :: "string \<Rightarrow> ref comp" where
  "get_ref x =
     then_do (get_var x) (\<lambda>b. case b of Obj r \<Rightarrow> return_ok r | Cls c \<Rightarrow> raise AttributeError)"

text \<open>
  A global name used as a class: called, named as a base or as the metaclass. An instance
  of the classes of the notebook cannot be called.
\<close>

definition get_class :: "string \<Rightarrow> pyclass comp" where
  "get_class x =
     then_do (get_var x) (\<lambda>b. case b of Cls c \<Rightarrow> return_ok c | Obj r \<Rightarrow> raise TypeError)"

text \<open>
  The statement \<open>class name(bases): body\<close>: the bases are looked up, the metaclass
  builds the class from the namespace the body leaves, and the name is bound to it.
\<close>

definition class_statement ::
  "(string \<Rightarrow> pyclass list \<Rightarrow> (string \<times> attr) list \<Rightarrow> pyclass) \<Rightarrow>
   string \<Rightarrow> string list \<Rightarrow> (string \<times> attr) list \<Rightarrow> unit comp" where
  "class_statement metaclass name base_names body =
     then_do (for_each get_class base_names) (\<lambda>bases.
       set_var name (Cls (metaclass name bases body)))"

text \<open>Step 1. \<open>class Book\<close>; the annotations \<open>str\<close> and \<open>int\<close> are built-in names.\<close>

definition cell_01 :: "unit comp" where
  "cell_01 =
     class_statement type_new ''Book'' [] [(''__doc__'', AStr ''A class representing a book.'')]"

definition cell_02 :: "unit comp" where
  "cell_02 =
     then_do (get_class ''Book'') (\<lambda>_.
     then_do (new_Book ''1984'' ''George Orwell'' 1949) (\<lambda>r.
     then_do (set_var ''book1'' (Obj r)) (\<lambda>_.
     then_do (get_ref ''book1'') (\<lambda>b.
     then_do (get_info b) print))))"

text \<open>Step 2. \<open>class User\<close>.\<close>

definition cell_03 :: "unit comp" where
  "cell_03 =
     class_statement type_new ''User'' []
       [(''__doc__'', AStr ''A class representing a library user.'')]"

definition cell_04 :: "unit comp" where
  "cell_04 =
     then_do (get_class ''User'') (\<lambda>_.
     then_do (new_User ''Alice'' 28) (\<lambda>r.
     then_do (set_var ''user1'' (Obj r)) (\<lambda>_.
     then_do (get_ref ''user1'') (\<lambda>u.
     then_do (get_user_info u) print))))"

text \<open>
  Step 3. \<open>class Library\<close>. The annotation \<open>book: Book\<close> of \<open>add_book\<close> is evaluated
  when the method is defined, so the name \<open>Book\<close> is looked up.
\<close>

definition cell_05 :: "unit comp" where
  "cell_05 =
     then_do (get_var ''Book'') (\<lambda>_.
       class_statement type_new ''Library'' []
         [(''__doc__'', AStr ''A class representing a library.'')])"

text \<open>
  \<open>print(library)\<close> prints \<open>str(library)\<close>, which is \<open>Library.__str__\<close>, and
  \<open>len(library)\<close> is \<open>Library.__len__\<close>.
\<close>

definition cell_06 :: "unit comp" where
  "cell_06 =
     then_do (get_class ''Library'') (\<lambda>_.
     then_do (new_Library ''City Library'') (\<lambda>r.
     then_do (set_var ''library'' (Obj r)) (\<lambda>_.
     then_do (get_ref ''library'') (\<lambda>l.
     then_do (get_ref ''book1'') (\<lambda>b.
     then_do (add_book l b) (\<lambda>_.
     then_do (get_ref ''library'') (\<lambda>l.
     then_do (Library_str l) (\<lambda>s.
     then_do (print s) (\<lambda>_.
     then_do (get_ref ''library'') (\<lambda>l.
     then_do (Library_len l) (\<lambda>n.
       print (''Number of books: '' @ str_int n))))))))))))"

text \<open>Step 4. \<open>class EBook(Book)\<close>.\<close>

definition cell_07 :: "unit comp" where
  "cell_07 =
     class_statement type_new ''EBook'' [''Book'']
       [(''__doc__'', AStr ''A subclass of Book representing an E-Book.'')]"

definition cell_08 :: "unit comp" where
  "cell_08 =
     then_do (get_class ''EBook'') (\<lambda>_.
     then_do (new_EBook ''Python Guide'' ''John Doe'' 2022 5) (\<lambda>r.
     then_do (set_var ''ebook1'' (Obj r)) (\<lambda>_.
     then_do (get_ref ''ebook1'') (\<lambda>b.
     then_do (get_info b) print))))"

text \<open>Step 5. \<open>class AudioBook(Book)\<close>.\<close>

definition cell_09 :: "unit comp" where
  "cell_09 =
     class_statement type_new ''AudioBook'' [''Book'']
       [(''__doc__'', AStr ''A subclass representing an audiobook.'')]"

definition cell_10 :: "unit comp" where
  "cell_10 =
     then_do (get_class ''AudioBook'') (\<lambda>_.
     then_do (new_AudioBook ''Learn Python'' ''Jane Doe'' 2023 300) (\<lambda>r.
     then_do (set_var ''audiobook1'' (Obj r)) (\<lambda>_.
     then_do (get_ref ''audiobook1'') (\<lambda>b.
     then_do (get_info b) print))))"

text \<open>
  Step 6. \<open>class LibraryMember\<close>, with the annotations \<open>user: User\<close> and \<open>book: Book\<close>.
\<close>

definition cell_11 :: "unit comp" where
  "cell_11 =
     then_do (get_var ''User'') (\<lambda>_.
     then_do (get_var ''Book'') (\<lambda>_.
       class_statement type_new ''LibraryMember'' []
         [(''__doc__'', AStr ''A class representing a library member.'')]))"

definition cell_12 :: "unit comp" where
  "cell_12 =
     then_do (get_class ''LibraryMember'') (\<lambda>_.
     then_do (get_ref ''user1'') (\<lambda>u.
     then_do (new_LibraryMember u) (\<lambda>r.
     then_do (set_var ''member1'' (Obj r)) (\<lambda>_.
     then_do (get_ref ''member1'') (\<lambda>m.
     then_do (get_ref ''book1'') (\<lambda>b.
     then_do (borrow_book m b) (\<lambda>_.
     then_do (get_ref ''member1'') (\<lambda>m.
     then_do (get_borrowed_books m) (\<lambda>infos.
       print (repr_str_list infos))))))))))"

text \<open>Step 7. \<open>class Rating\<close>.\<close>

definition cell_13 :: "unit comp" where
  "cell_13 =
     class_statement type_new ''Rating'' [] [(''__doc__'', AStr ''A class to store book ratings.'')]"

text \<open>
  \<open>rating1 + rating2\<close> is \<open>Rating.__add__(rating1, rating2)\<close>, and \<open>print(final_rating)\<close>
  prints \<open>Rating.__str__(final_rating)\<close>.
\<close>

definition cell_14 :: "unit comp" where
  "cell_14 =
     then_do (get_class ''Rating'') (\<lambda>_.
     then_do (new_Rating 4) (\<lambda>r.
     then_do (set_var ''rating1'' (Obj r)) (\<lambda>_.
     then_do (get_class ''Rating'') (\<lambda>_.
     then_do (new_Rating 5) (\<lambda>r.
     then_do (set_var ''rating2'' (Obj r)) (\<lambda>_.
     then_do (get_ref ''rating1'') (\<lambda>a.
     then_do (get_ref ''rating2'') (\<lambda>b.
     then_do (Rating_add a b) (\<lambda>r.
     then_do (set_var ''final_rating'' (Obj r)) (\<lambda>_.
     then_do (get_ref ''final_rating'') (\<lambda>f.
     then_do (Rating_str f) print)))))))))))"

text \<open>
  Step 8. \<open>class MetaBook(type)\<close>, whose base is the built-in \<open>type\<close>, and then
  \<open>class SpecialBook(metaclass=MetaBook): pass\<close>, which looks the metaclass up and calls
  \<open>MetaBook.__new__\<close> with the namespace the empty body leaves.
\<close>

definition builtin_type :: pyclass where
  "builtin_type = PyClass ''type'' [] []"

definition SpecialBook_body :: "(string \<times> attr) list" where
  "SpecialBook_body = []"

definition cell_15 :: "unit comp" where
  "cell_15 =
     then_do (set_var ''MetaBook''
                (Cls (type_new ''MetaBook'' [builtin_type]
                        [(''__doc__'', AStr ''A metaclass for books.'')]))) (\<lambda>_.
     then_do (get_class ''MetaBook'') (\<lambda>_.
       class_statement MetaBook_new ''SpecialBook'' [] SpecialBook_body))"

text \<open>\<open>print(SpecialBook.category)\<close>.\<close>

definition cell_16 :: "unit comp" where
  "cell_16 =
     then_do (get_var ''SpecialBook'') (\<lambda>b.
       case b of
         Cls c \<Rightarrow> (case class_getattr c ''category'' of
                     Some v \<Rightarrow> then_do (str_attr v) print
                   | None \<Rightarrow> raise AttributeError)
       | Obj r \<Rightarrow> raise AttributeError)"

definition notebook :: "unit comp list" where
  "notebook =
     [cell_01, cell_02, cell_03, cell_04, cell_05, cell_06, cell_07, cell_08,
      cell_09, cell_10, cell_11, cell_12, cell_13, cell_14, cell_15, cell_16]"

text \<open>
  Running the cells in order. The notebook keeps with each cell what the cell printed and
  the exception that ended it, if any, so the console is cleared when a cell starts; a cell
  that raises stops the run.
\<close>

fun run_cells :: "unit comp list \<Rightarrow> state \<Rightarrow> (string \<times> exn option) list \<times> state" where
  "run_cells [] st = ([], st)"
| "run_cells (c # cs) st =
     (case c (st\<lparr>stdout := []\<rparr>) of
        (Inl e, st1) \<Rightarrow> ([(stdout st1, Some e)], st1)
      | (Inr u, st1) \<Rightarrow>
          (case run_cells cs st1 of (outs, st2) \<Rightarrow> ((stdout st1, None) # outs, st2)))"

text \<open>
  The output the notebook file records with each of its sixteen code cells, in order;
  \<open>CHR 0x27\<close> is the single quote.
\<close>

definition recorded_output :: "string list" where
  "recorded_output =
     [[],
      ''1984 by George Orwell, published in 1949'' @ [newline],
      [],
      ''User: Alice, Age: 28'' @ [newline],
      [],
      ''Library: City Library with 1 books'' @ [newline] @ ''Number of books: 1'' @ [newline],
      [],
      ''Python Guide by John Doe, published in 2022 (File size: 5MB)'' @ [newline],
      [],
      ''Learn Python by Jane Doe, published in 2023 (Duration: 300 min)'' @ [newline],
      [],
      ''['' @ [CHR 0x27] @ ''1984 by George Orwell, published in 1949'' @ [CHR 0x27] @ '']''
        @ [newline],
      [],
      ''Rating: 9/5'' @ [newline],
      [],
      ''General'' @ [newline]]"

section \<open>The lessons\<close>

subsection \<open>Exception handling: \<open>check_age\<close> and \<open>BankAccount\<close>\<close>

definition check_age :: "int \<Rightarrow> unit comp" where
  "check_age age =
     (if age < 0 then raise (ValueError ''Age cannot be negative.'')
      else print ''Valid age.'')"

text \<open>The \<open>BankAccount\<close> of the section on custom exceptions.\<close>

definition new_BankAccount :: "int \<Rightarrow> ref comp" where
  "new_BankAccount balance = alloc (BankAccountObj balance)"

definition withdraw :: "ref \<Rightarrow> int \<Rightarrow> unit comp" where
  "withdraw self amount st =
     (case lookup st self of
        Some (BankAccountObj balance) \<Rightarrow>
          (if amount > balance
           then raise (InsufficientFundsError ''Insufficient funds for this transaction.'') st
           else store self (BankAccountObj (balance - amount)) st)
      | _ \<Rightarrow> (Inl AttributeError, st))"

subsection \<open>Files\<close>

text \<open>
  \<open>with open(name, 'w') as file: file.write(s)\<close> creates the file or empties it, and
  writes; \<open>with open(name, 'r') as file: file.read()\<close> raises \<open>FileNotFoundError\<close>
  when there is no such file. Binary mode is the same on the contents kept here.
\<close>

definition write_text :: "string \<Rightarrow> string \<Rightarrow> unit comp" where
  "write_text name s st = (Inr (), st\<lparr>files := (files st)(name \<mapsto> s)\<rparr>)"

definition read_text :: "string \<Rightarrow> string comp" where
  "read_text name st =
     (case files st name of
        Some s \<Rightarrow> (Inr s, st)
      | None \<Rightarrow> (Inl (FileNotFoundError name), st))"

definition os_remove :: "string \<Rightarrow> unit comp" where
  "os_remove name st =
     (case files st name of
        Some s \<Rightarrow> (Inr (), st\<lparr>files := (files st)(name := None)\<rparr>)
      | None \<Rightarrow> (Inl (FileNotFoundError name), st))"

text \<open>\<open>try: body finally: cleanup\<close>.\<close>

definition try_finally :: "'a comp \<Rightarrow> unit comp \<Rightarrow> 'a comp" where
  "try_finally body cleanup st =
     (case body st of
        (r, st1) \<Rightarrow> (case cleanup st1 of
                       (Inl e, st2) \<Rightarrow> (Inl e, st2)
                     | (Inr u, st2) \<Rightarrow> (r, st2)))"

subsection \<open>Object serialization: \<open>data.pkl\<close> and \<open>data.json\<close>\<close>

type_synonym dict = "(string \<times> attr) list"

definition data :: dict where
  "data = [(''name'', AStr ''Alice''), (''age'', AInt 30), (''city'', AStr ''New York'')]"

text \<open>
  The text of \<open>repr\<close> of a dictionary, and \<open>print\<close> of a dictionary, which converts
  the values in order and raises at the first integer over the digit limit.
\<close>

definition repr_attr :: "attr \<Rightarrow> string" where
  "repr_attr v = (case v of ANone \<Rightarrow> ''None'' | AInt i \<Rightarrow> str_int i | AStr s \<Rightarrow> repr_str s)"

definition repr_dict :: "dict \<Rightarrow> string" where
  "repr_dict d = ''{'' @ join '', '' (map (\<lambda>(k, v). repr_str k @ '': '' @ repr_attr v) d) @ ''}''"

definition print_dict :: "dict \<Rightarrow> unit comp" where
  "print_dict d =
     then_do (for_each (\<lambda>(k, v). str_attr v) d) (\<lambda>_. print (repr_dict d))"

text \<open>
  The formats of \<open>pickle\<close> and \<open>json\<close> belong to the standard library; the examples take
  the encoder and the decoder as parameters.
\<close>

definition pickling_example :: "(dict \<Rightarrow> string) \<Rightarrow> unit comp" where
  "pickling_example pickle_dumps = write_text ''data.pkl'' (pickle_dumps data)"

definition unpickling_example :: "(string \<Rightarrow> exn + dict) \<Rightarrow> unit comp" where
  "unpickling_example pickle_loads =
     then_do (read_text ''data.pkl'') (\<lambda>bytes.
       case pickle_loads bytes of
         Inl e \<Rightarrow> raise e
       | Inr loaded_data \<Rightarrow> print_dict loaded_data)"

definition json_saving_example :: "(dict \<Rightarrow> nat \<Rightarrow> string) \<Rightarrow> unit comp" where
  "json_saving_example json_dumps = write_text ''data.json'' (json_dumps data 4)"

definition json_loading_example :: "(string \<Rightarrow> exn + dict) \<Rightarrow> unit comp" where
  "json_loading_example json_loads =
     then_do (read_text ''data.json'') (\<lambda>text.
       case json_loads text of
         Inl e \<Rightarrow> raise e
       | Inr loaded_json \<Rightarrow> print_dict loaded_json)"

subsection \<open>File handling in a class: \<open>FileManager\<close> and \<open>data.txt\<close>\<close>

definition new_FileManager :: "string \<Rightarrow> ref comp" where
  "new_FileManager filename = alloc (FileManagerObj filename)"

definition FileManager_filename :: "ref \<Rightarrow> string comp" where
  "FileManager_filename self st =
     (case lookup st self of
        Some (FileManagerObj filename) \<Rightarrow> (Inr filename, st)
      | _ \<Rightarrow> (Inl AttributeError, st))"

definition read_file :: "ref \<Rightarrow> string comp" where
  "read_file self st =
     (case then_do (FileManager_filename self) read_text st of
        (Inl (FileNotFoundError name), st1) \<Rightarrow> (Inr ''File not found.'', st1)
      | (r, st1) \<Rightarrow> (r, st1))"

definition write_file :: "ref \<Rightarrow> string \<Rightarrow> unit comp" where
  "write_file self content =
     then_do (FileManager_filename self) (\<lambda>filename. write_text filename content)"

definition file_manager_example :: "unit comp" where
  "file_manager_example =
     then_do (new_FileManager ''data.txt'') (\<lambda>manager.
     then_do (write_file manager ''Hello OOP!'') (\<lambda>_.
     then_do (read_file manager) print))"

subsection \<open>Context managers: \<open>temporary_file\<close>\<close>

text \<open>
  \<open>tempfile.NamedTemporaryFile(delete=False)\<close> creates an empty file under a name that
  no file has; the name the operating system offers is a parameter.
\<close>

definition NamedTemporaryFile :: "string \<Rightarrow> string comp" where
  "NamedTemporaryFile name st =
     (case files st name of
        Some s \<Rightarrow> (Inl (FileExistsError name), st)
      | None \<Rightarrow> (Inr name, st\<lparr>files := (files st)(name \<mapsto> [])\<rparr>))"

text \<open>
  \<open>with temporary_file() as filename: body\<close>: the generator runs to its \<open>yield\<close>, the
  body runs with the name, and the \<open>finally\<close> clause removes the file.
\<close>

definition with_temporary_file :: "string \<Rightarrow> (string \<Rightarrow> 'a comp) \<Rightarrow> 'a comp" where
  "with_temporary_file name body =
     then_do (NamedTemporaryFile name) (\<lambda>temp_name.
       try_finally (body temp_name) (os_remove temp_name))"

definition temporary_file_example :: "string \<Rightarrow> unit comp" where
  "temporary_file_example name =
     with_temporary_file name (\<lambda>filename. print (''Temporary file created: '' @ filename))"

section \<open>What calls on the library classes can reach\<close>

text \<open>
  A call of a constructor or a method of the notebook's classes, with its arguments, and
  the state a sequence of such calls leaves.
\<close>

datatype call =
    NewBook string string int
  | NewEBook string string int int
  | NewAudioBook string string int int
  | GetInfo ref
  | NewUser string int
  | GetUserInfo ref
  | SetAge ref int
  | NewLibrary string
  | AddBook ref ref
  | LibraryStr ref
  | LibraryLen ref
  | NewLibraryMember ref
  | BorrowBook ref ref
  | GetBorrowedBooks ref
  | NewRating int
  | RatingAdd ref ref
  | RatingStr ref

fun exec_call :: "call \<Rightarrow> state \<Rightarrow> state" where
  "exec_call (NewBook t a y) st = snd (new_Book t a y st)"
| "exec_call (NewEBook t a y s) st = snd (new_EBook t a y s st)"
| "exec_call (NewAudioBook t a y d) st = snd (new_AudioBook t a y d st)"
| "exec_call (GetInfo r) st = snd (get_info r st)"
| "exec_call (NewUser n a) st = snd (new_User n a st)"
| "exec_call (GetUserInfo r) st = snd (get_user_info r st)"
| "exec_call (SetAge r a) st = snd (set_age r a st)"
| "exec_call (NewLibrary n) st = snd (new_Library n st)"
| "exec_call (AddBook l b) st = snd (add_book l b st)"
| "exec_call (LibraryStr l) st = snd (Library_str l st)"
| "exec_call (LibraryLen l) st = snd (Library_len l st)"
| "exec_call (NewLibraryMember u) st = snd (new_LibraryMember u st)"
| "exec_call (BorrowBook m b) st = snd (borrow_book m b st)"
| "exec_call (GetBorrowedBooks m) st = snd (get_borrowed_books m st)"
| "exec_call (NewRating r) st = snd (new_Rating r st)"
| "exec_call (RatingAdd a b) st = snd (Rating_add a b st)"
| "exec_call (RatingStr r) st = snd (Rating_str r st)"

fun run_calls :: "call list \<Rightarrow> state \<Rightarrow> state" where
  "run_calls [] st = st"
| "run_calls (c # cs) st = run_calls cs (exec_call c st)"

text \<open>
  The list attributes of the objects in a store: \<open>books\<close> of a library and
  \<open>borrowed_books\<close> of a member.
\<close>

fun list_attr :: "obj \<Rightarrow> ref list" where
  "list_attr (LibraryObj name l) = [l]"
| "list_attr (LibraryMemberObj user l) = [l]"
| "list_attr ob = []"

fun is_list :: "obj \<Rightarrow> bool" where
  "is_list (ListObj xs) = True"
| "is_list ob = False"

text \<open>
  Every list attribute refers to a list object of the store, and no two objects share
  their list.
\<close>

definition lists_owned :: "obj list \<Rightarrow> bool" where
  "lists_owned h \<longleftrightarrow>
     (\<forall>i < length h. \<forall>l \<in> set (list_attr (h ! i)). l < length h \<and> is_list (h ! l)) \<and>
     (\<forall>i < length h. \<forall>j < length h. \<forall>l \<in> set (list_attr (h ! i)).
        l \<in> set (list_attr (h ! j)) \<longrightarrow> i = j)"

section \<open>Example states\<close>

text \<open>
  States built with the values the notebook and the lessons use, on which the general
  statements below are also checked.
\<close>

definition sample_calls :: "call list" where
  "sample_calls =
     [NewBook ''1984'' ''George Orwell'' 1949, NewUser ''Alice'' 28,
      NewLibrary ''City Library'', AddBook 3 0, NewLibraryMember 1]"






definition one_user :: state where
  "one_user = run_calls [NewUser ''Alice'' 28, NewUser ''Bob'' (- 3)] init_state"

definition one_account :: state where
  "one_account = snd (new_BankAccount 100 init_state)"

section \<open>Basic facts about the store\<close>

lemma lookup_alloc:
  "lookup (snd (alloc ob st)) r = (if r = length (heap st) then Some ob else lookup st r)"
  by (auto simp: lookup_def alloc_def nth_append)

lemma lookup_store:
  "r < length (heap st) \<Longrightarrow>
   lookup (snd (store r ob st)) q = (if q = r then Some ob else lookup st q)"
  by (auto simp: lookup_def store_def)

lemma lookup_SomeD: "lookup st r = Some ob \<Longrightarrow> r < length (heap st) \<and> heap st ! r = ob"
  by (auto simp: lookup_def split: if_splits)

lemma lookup_heap_update:
  "l < length (heap st) \<Longrightarrow>
   lookup (st\<lparr>heap := (heap st)[l := ob]\<rparr>) r = (if r = l then Some ob else lookup st r)"
  by (auto simp: lookup_def)


lemma lookup_stdout_update [simp]: "lookup (st\<lparr>stdout := s\<rparr>) r = lookup st r"
  by (simp add: lookup_def)

lemma lookup_files_update [simp]: "lookup (st\<lparr>files := f\<rparr>) r = lookup st r"
  by (simp add: lookup_def)

lemma heap_alloc: "heap (snd (alloc ob st)) = heap st @ [ob]"
  by (simp add: alloc_def)

subsection \<open>The digit limit\<close>

lemma within_digit_limit_heap [simp]:
  "within_digit_limit (st\<lparr>heap := h\<rparr>) i = within_digit_limit st i"
  by (simp add: within_digit_limit_def)








subsection \<open>\<open>str\<close> on the integers of the examples\<close>

lemma str_int_digits:
  "str_int 0 = ''0''" "str_int 1 = ''1''" "str_int 2 = ''2''" "str_int 9 = ''9''"
  by (simp_all add: str_int_def str_nat.simps digit_char_def)

lemma str_int_samples:
  "str_int 5 = ''5''" "str_int 300 = ''300''" "str_int 2022 = ''2022''"
  "str_int 2023 = ''2023''" "str_int 1949 = ''1949''" "str_int 28 = ''28''"
  by (simp_all add: str_int_def str_nat.simps digit_char_def)

lemma str_digits_samples:
  "str_digits 9 = 1" "str_digits 5 = 1" "str_digits 28 = 2" "str_digits 300 = 3"
  "str_digits 1949 = 4" "str_digits 2022 = 4" "str_digits 2023 = 4"
  by (simp_all add: str_digits_def str_nat.simps)


section \<open>Methods that only read\<close>

lemma book_attrs_pure: "snd (book_attrs r st) = st"
  by (simp add: book_attrs_def split: option.split obj.split)

lemma Book_get_info_pure: "snd (Book_get_info r st) = st"
  by (simp add: Book_get_info_def then_do_def return_ok_def book_attrs_def format_int_def
      split: option.split obj.split)

lemma EBook_get_info_pure: "snd (EBook_get_info r st) = st"
  by (simp add: EBook_get_info_def Book_get_info_def then_do_def return_ok_def book_attrs_def
      EBook_file_size_def format_int_def split: option.split obj.split)

lemma AudioBook_get_info_pure: "snd (AudioBook_get_info r st) = st"
  by (simp add: AudioBook_get_info_def Book_get_info_def then_do_def return_ok_def book_attrs_def
      AudioBook_duration_def format_int_def split: option.split obj.split)

lemma get_info_pure: "snd (get_info r st) = st"
  by (simp add: get_info_def Book_get_info_pure EBook_get_info_pure AudioBook_get_info_pure
      split: option.split obj.split)

lemma for_each_pure:
  assumes "\<And>x s. snd (f x s) = s"
  shows "snd (for_each f xs st) = st"
proof (induction xs)
  case Nil
  show ?case by (simp add: return_ok_def)
next
  case (Cons x xs)
  obtain r where r: "f x st = (r, st)"
    using assms [of x st] by (cases "f x st") simp
  obtain rs where rs: "for_each f xs st = (rs, st)"
    using Cons.IH by (cases "for_each f xs st") simp
  show ?case
    by (simp add: then_do_def r rs return_ok_def split: sum.split)
qed

lemma get_user_info_pure: "snd (get_user_info r st) = st"
  by (simp add: get_user_info_def then_do_def return_ok_def format_int_def
      split: option.split obj.split)

lemma list_items_pure: "snd (list_items r st) = st"
  by (simp add: list_items_def split: option.split obj.split)

lemma Library_str_pure: "snd (Library_str r st) = st"
  by (simp add: Library_str_def Library_name_def Library_books_def list_items_def then_do_def
      return_ok_def split: option.split obj.split)

lemma Library_len_pure: "snd (Library_len r st) = st"
  by (simp add: Library_len_def Library_books_def list_items_def then_do_def
      return_ok_def split: option.split obj.split)

lemma get_borrowed_books_pure: "snd (get_borrowed_books r st) = st"
proof -
  have "\<And>l s. snd (then_do (list_items l) (for_each get_info) s) = s"
    by (simp add: then_do_def list_items_def for_each_pure get_info_pure
        split: option.split obj.split)
  then show ?thesis
    by (simp add: get_borrowed_books_def then_do_def LibraryMember_borrowed_books_def
        split: option.split obj.split)
qed

lemma Rating_str_pure: "snd (Rating_str r st) = st"
  by (simp add: Rating_str_def Rating_rating_def then_do_def return_ok_def format_int_def
      split: option.split obj.split)


section \<open>What the methods do on objects of their class\<close>



lemma set_age_accepts:
  "lookup st u = Some (UserObj name age) \<Longrightarrow> 0 < new_age \<Longrightarrow>
   set_age u new_age st = (Inr (), st\<lparr>heap := (heap st)[u := UserObj name new_age]\<rparr>)"
  by (simp add: set_age_def store_def)

lemma set_age_rejects:
  "lookup st u = Some (UserObj name age) \<Longrightarrow> new_age \<le> 0 \<Longrightarrow>
   set_age u new_age st = (Inr (), st\<lparr>stdout := stdout st @ ''Invalid age!'' @ [newline]\<rparr>)"
  by (simp add: set_age_def print_def)

lemma list_append_run:
  "lookup st l = Some (ListObj xs) \<Longrightarrow>
   list_append l x st = (Inr (), st\<lparr>heap := (heap st)[l := ListObj (xs @ [x])]\<rparr>)"
  by (simp add: list_append_def store_def)

lemma new_Library_run:
  "new_Library name st =
     (Inr (Suc (length (heap st))),
      st\<lparr>heap := heap st @ [ListObj [], LibraryObj name (length (heap st))]\<rparr>)"
  by (simp add: new_Library_def then_do_def alloc_def)

lemma add_book_run:
  "lookup st l = Some (LibraryObj name lb) \<Longrightarrow> lookup st lb = Some (ListObj bs) \<Longrightarrow>
   add_book l b st = (Inr (), st\<lparr>heap := (heap st)[lb := ListObj (bs @ [b])]\<rparr>)"
  by (simp add: add_book_def then_do_def Library_books_def list_append_run)

lemma add_books_run:
  assumes "lookup st l = Some (LibraryObj name lb)" and "lookup st lb = Some (ListObj bs)"
  shows "for_each (add_book l) books st =
     (Inr (map (\<lambda>b. ()) books), st\<lparr>heap := (heap st)[lb := ListObj (bs @ books)]\<rparr>)"
  using assms
proof (induction books arbitrary: st bs)
  case Nil
  have "(heap st)[lb := ListObj bs] = heap st"
    using lookup_SomeD [OF Nil(2)] by (simp add: list_update_same_conv)
  then show ?case by (simp add: return_ok_def)
next
  case (Cons b books)
  let ?st = "st\<lparr>heap := (heap st)[lb := ListObj (bs @ [b])]\<rparr>"
  have lb: "lb < length (heap st)"
    using lookup_SomeD [OF Cons.prems(2)] by simp
  have ne: "l \<noteq> lb"
    using Cons.prems by auto
  have step: "add_book l b st = (Inr (), ?st)"
    using Cons.prems by (rule add_book_run)
  have l': "lookup ?st l = Some (LibraryObj name lb)"
    using lb ne Cons.prems(1) by (simp add: lookup_heap_update)
  have lb': "lookup ?st lb = Some (ListObj (bs @ [b]))"
    using lb by (simp add: lookup_heap_update)
  show ?case
    by (simp add: then_do_def step Cons.IH [OF l' lb'] return_ok_def)
qed

lemma Library_len_run:
  "lookup st l = Some (LibraryObj name lb) \<Longrightarrow> lookup st lb = Some (ListObj bs) \<Longrightarrow>
   Library_len l st = (Inr (int (length bs)), st)"
  by (simp add: Library_len_def then_do_def Library_books_def list_items_def return_ok_def)

lemma Library_str_run:
  "lookup st l = Some (LibraryObj name lb) \<Longrightarrow> lookup st lb = Some (ListObj bs) \<Longrightarrow>
   Library_str l st =
     (Inr (''Library: '' @ name @ '' with '' @ str_int (int (length bs)) @ '' books''), st)"
  by (simp add: Library_str_def then_do_def Library_name_def Library_books_def list_items_def
      return_ok_def)

lemma borrow_book_run:
  "lookup st m = Some (LibraryMemberObj u bl) \<Longrightarrow> lookup st bl = Some (ListObj bs) \<Longrightarrow>
   borrow_book m b st = (Inr (), st\<lparr>heap := (heap st)[bl := ListObj (bs @ [b])]\<rparr>)"
  by (simp add: borrow_book_def then_do_def LibraryMember_borrowed_books_def list_append_run)




lemma Rating_add_allocates:
  "(\<exists>k. snd (Rating_add a b st) = st\<lparr>heap := heap st @ [RatingObj k]\<rparr>)
   \<or> snd (Rating_add a b st) = st"
  by (auto simp: Rating_add_def then_do_def Rating_rating_def new_Rating_def alloc_def
      split: option.split obj.split)

lemma map_of_dict_set: "map_of (dict_set k v d) k = Some v"
  by (induction d) auto

section \<open>No two objects share a list\<close>

lemma lists_owned_append_plain:
  assumes "lists_owned h" and "list_attr ob = []"
  shows "lists_owned (h @ [ob])"
  using assms unfolding lists_owned_def
  by (auto simp: nth_append less_Suc_eq)

lemma lists_owned_append_owner:
  assumes "lists_owned h" and "list_attr ob = [length h]"
  shows "lists_owned (h @ [ListObj xs, ob])"
  using assms unfolding lists_owned_def
  by (auto simp: nth_append less_Suc_eq nth_Cons')

lemma lists_owned_update:
  assumes inv: "lists_owned h" and r: "r < length h"
    and la: "list_attr ob = list_attr (h ! r)"
    and il: "is_list (h ! r) \<longrightarrow> is_list ob"
  shows "lists_owned (h[r := ob])"
proof -
  have attr: "list_attr (h[r := ob] ! i) = list_attr (h ! i)" if "i < length h" for i
    using la that by (cases "i = r") simp_all
  have isl: "is_list (h[r := ob] ! l)" if "l < length h" "is_list (h ! l)" for l
    using il that by (cases "l = r") simp_all
  have a: "l < length h \<and> is_list (h ! l)"
    if "i < length h" "l \<in> set (list_attr (h ! i))" for i l
    using inv that unfolding lists_owned_def by blast
  have b: "i = j"
    if "i < length h" "j < length h" "l \<in> set (list_attr (h ! i))"
      "l \<in> set (list_attr (h ! j))" for i j l
    using inv that unfolding lists_owned_def by blast
  show ?thesis
    unfolding lists_owned_def
  proof (intro conjI allI impI ballI)
    fix i l
    assume "i < length (h[r := ob])" "l \<in> set (list_attr (h[r := ob] ! i))"
    then have "l < length h \<and> is_list (h ! l)"
      using a attr by simp
    then show "l < length (h[r := ob])" and "is_list (h[r := ob] ! l)"
      using isl by simp_all
  next
    fix i j l
    assume "i < length (h[r := ob])" "j < length (h[r := ob])"
      "l \<in> set (list_attr (h[r := ob] ! i))" "l \<in> set (list_attr (h[r := ob] ! j))"
    then show "i = j"
      using b [of i j l] attr by simp
  qed
qed

lemma lists_owned_distinct:
  assumes "lists_owned h" and "i < length h" and "j < length h"
    and "h ! i = LibraryObj name lb" and "h ! j = LibraryMemberObj u bl"
  shows "lb \<noteq> bl"
proof
  assume "lb = bl"
  then have "i = j"
    using assms unfolding lists_owned_def by (metis list.set_intros(1) list_attr.simps(1,2))
  then show False using assms by simp
qed

lemma lists_owned_member:
  assumes "lists_owned h" and "j < length h" and "h ! j = LibraryMemberObj u bl"
  shows "bl < length h \<and> is_list (h ! bl)"
  using assms unfolding lists_owned_def by (metis list.set_intros(1) list_attr.simps(2))

lemma alloc_owned:
  "lists_owned (heap st) \<Longrightarrow> list_attr ob = [] \<Longrightarrow> lists_owned (heap (snd (alloc ob st)))"
  by (simp add: heap_alloc lists_owned_append_plain)

lemma new_Library_heap:
  "heap (snd (new_Library name st)) = heap st @ [ListObj [], LibraryObj name (length (heap st))]"
  by (simp add: new_Library_def then_do_def alloc_def)

lemma new_LibraryMember_heap:
  "heap (snd (new_LibraryMember user st)) =
   heap st @ [ListObj [], LibraryMemberObj user (length (heap st))]"
  by (simp add: new_LibraryMember_def then_do_def alloc_def)

lemma list_append_owned:
  assumes "lists_owned (heap st)"
  shows "lists_owned (heap (snd (list_append l x st)))"
proof (cases "lookup st l")
  case None
  then show ?thesis using assms by (simp add: list_append_def)
next
  case (Some ob)
  then have l: "l < length (heap st)" and ob: "heap st ! l = ob"
    using lookup_SomeD by blast+
  show ?thesis
  proof (cases ob)
    case (ListObj xs)
    have "lists_owned ((heap st)[l := ListObj (xs @ [x])])"
      using assms l by (rule lists_owned_update) (simp_all add: ob ListObj)
    then show ?thesis by (simp add: list_append_def Some ListObj store_def)
  qed (use assms Some in \<open>simp_all add: list_append_def\<close>)
qed

lemma add_book_owned:
  "lists_owned (heap st) \<Longrightarrow> lists_owned (heap (snd (add_book l b st)))"
  by (simp add: add_book_def then_do_def Library_books_def list_append_owned
      split: option.split obj.split)

lemma borrow_book_owned:
  "lists_owned (heap st) \<Longrightarrow> lists_owned (heap (snd (borrow_book m b st)))"
  by (simp add: borrow_book_def then_do_def LibraryMember_borrowed_books_def list_append_owned
      split: option.split obj.split)

lemma set_age_owned:
  assumes "lists_owned (heap st)"
  shows "lists_owned (heap (snd (set_age u a st)))"
proof (cases "lookup st u")
  case None
  then show ?thesis using assms by (simp add: set_age_def)
next
  case (Some ob)
  then have u: "u < length (heap st)" and ob: "heap st ! u = ob"
    using lookup_SomeD by blast+
  show ?thesis
  proof (cases ob)
    case (UserObj name age)
    have "lists_owned ((heap st)[u := UserObj name a])"
      using assms u by (rule lists_owned_update) (simp_all add: ob UserObj)
    then show ?thesis using assms by (simp add: set_age_def Some UserObj store_def print_def)
  qed (use assms Some in \<open>simp_all add: set_age_def\<close>)
qed

lemma Rating_add_owned:
  "lists_owned (heap st) \<Longrightarrow> lists_owned (heap (snd (Rating_add a b st)))"
  by (simp add: Rating_add_def then_do_def Rating_rating_def new_Rating_def alloc_owned
      split: option.split obj.split)

lemma exec_call_owned:
  assumes "lists_owned (heap st)"
  shows "lists_owned (heap (exec_call c st))"
proof (cases c)
  case (NewLibrary name)
  then show ?thesis
    using assms by (simp add: new_Library_heap lists_owned_append_owner)
next
  case (NewLibraryMember user)
  then show ?thesis
    using assms by (simp add: new_LibraryMember_heap lists_owned_append_owner)
qed (use assms in \<open>simp_all add: new_Book_def new_EBook_def new_AudioBook_def new_User_def
      new_Rating_def alloc_owned get_info_pure get_user_info_pure set_age_owned add_book_owned
      Library_str_pure Library_len_pure borrow_book_owned get_borrowed_books_pure
      Rating_add_owned Rating_str_pure\<close>)

lemma run_calls_owned:
  "lists_owned (heap st) \<Longrightarrow> lists_owned (heap (run_calls cs st))"
  by (induction cs arbitrary: st) (simp_all add: exec_call_owned)

lemma reachable_owned: "lists_owned (heap (run_calls cs init_state))"
  by (rule run_calls_owned) (simp add: init_state_def lists_owned_def)

section \<open>The example states\<close>

lemma sample_heap:
  "heap (run_calls sample_calls init_state) =
     [BookObj (Book_init ''1984'' ''George Orwell'' 1949), UserObj ''Alice'' 28,
      ListObj [0], LibraryObj ''City Library'' 2, ListObj [], LibraryMemberObj 1 4]"
  by (simp add: sample_calls_def init_state_def new_Book_def new_User_def new_Library_def
      add_book_def new_LibraryMember_def then_do_def alloc_def Library_books_def
      list_append_def store_def lookup_def)

lemma sample_lookup:
  "lookup (run_calls sample_calls init_state) 0 = Some (BookObj (Book_init ''1984'' ''George Orwell'' 1949))"
  "lookup (run_calls sample_calls init_state) 1 = Some (UserObj ''Alice'' 28)"
  "lookup (run_calls sample_calls init_state) 2 = Some (ListObj [0])"
  "lookup (run_calls sample_calls init_state) 3 = Some (LibraryObj ''City Library'' 2)"
  "lookup (run_calls sample_calls init_state) 4 = Some (ListObj [])"
  "lookup (run_calls sample_calls init_state) 5 = Some (LibraryMemberObj 1 4)"
  by (simp_all add: lookup_def sample_heap)


lemma one_user_heap: "heap one_user = [UserObj ''Alice'' 28, UserObj ''Bob'' (- 3)]"
  by (simp add: one_user_def new_User_def alloc_def init_state_def)

lemma one_account_heap: "heap one_account = [BankAccountObj 100]"
  by (simp add: one_account_def new_BankAccount_def alloc_def init_state_def)

section \<open>Which methods change an object after its construction\<close>

text \<open>
  Claim C1, as the specification states it, says that no method call changes the state of
  an object after its construction. It fails on a library: after \<open>Library("City Library")\<close>
  the list of books is empty, and \<open>add_book\<close> makes it hold the book.
\<close>

theorem no_transition_after_construction_counterexample:
  "lookup (run_calls [NewBook ''1984'' ''George Orwell'' 1949, NewLibrary ''City Library'']
             init_state) 2 = Some (LibraryObj ''City Library'' 1)
   \<and> lookup (run_calls [NewBook ''1984'' ''George Orwell'' 1949, NewLibrary ''City Library'']
             init_state) 1 = Some (ListObj [])
   \<and> lookup (snd (add_book 2 0
        (run_calls [NewBook ''1984'' ''George Orwell'' 1949, NewLibrary ''City Library'']
             init_state))) 1 = Some (ListObj [0])"
  by (simp add: init_state_def new_Book_def new_Library_def add_book_def then_do_def alloc_def
      Library_books_def list_append_def store_def lookup_def)

text \<open>
  Claim C1, amended. The methods that only read leave the state as it is: \<open>get_info\<close>,
  \<open>get_user_info\<close>, \<open>Library.__str__\<close>, \<open>Library.__len__\<close>, \<open>get_borrowed_books\<close> and
  \<open>Rating.__str__\<close>. \<open>Rating.__add__\<close> at most allocates one new rating and changes no
  object that exists, and \<open>set_age\<close> with an age that is not positive changes no object.
  Three methods do change an object after its construction: \<open>Library.add_book\<close> and
  \<open>LibraryMember.borrow_book\<close> make the list of the receiver one element longer, and
  \<open>User.set_age\<close> with a positive age reassigns the age.
\<close>

theorem methods_and_state:
  "snd (get_info r st) = st
   \<and> snd (get_user_info r st) = st
   \<and> snd (Library_str r st) = st
   \<and> snd (Library_len r st) = st
   \<and> snd (get_borrowed_books r st) = st
   \<and> snd (Rating_str r st) = st
   \<and> ((\<exists>k. snd (Rating_add a b st) = st\<lparr>heap := heap st @ [RatingObj k]\<rparr>)
        \<or> snd (Rating_add a b st) = st)
   \<and> (new_age \<le> 0 \<longrightarrow> heap (snd (set_age u new_age st)) = heap st)
   \<and> (lookup st u = Some (UserObj name age) \<and> 0 < new_age \<longrightarrow>
        lookup (snd (set_age u new_age st)) u = Some (UserObj name new_age))
   \<and> (lookup st l = Some (LibraryObj lname lb) \<and> lookup st lb = Some (ListObj bs) \<longrightarrow>
        lookup (snd (add_book l x st)) lb = Some (ListObj (bs @ [x]))
        \<and> heap (snd (add_book l x st)) \<noteq> heap st)
   \<and> (lookup st m = Some (LibraryMemberObj usr bl) \<and> lookup st bl = Some (ListObj cs) \<longrightarrow>
        lookup (snd (borrow_book m x st)) bl = Some (ListObj (cs @ [x]))
        \<and> heap (snd (borrow_book m x st)) \<noteq> heap st)"
proof -
  have rejected: "heap (snd (set_age u new_age st)) = heap st" if "new_age \<le> 0"
    using that by (simp add: set_age_def print_def split: option.split obj.split)
  have accepted: "lookup (snd (set_age u new_age st)) u = Some (UserObj name new_age)"
    if u: "lookup st u = Some (UserObj name age)" and pos: "0 < new_age"
    using lookup_SomeD [OF u] by (simp add: set_age_accepts [OF u pos] lookup_heap_update)
  have grows: "lookup (st\<lparr>heap := (heap st)[i := ListObj (xs @ [x])]\<rparr>) i = Some (ListObj (xs @ [x]))
      \<and> (heap st)[i := ListObj (xs @ [x])] \<noteq> heap st"
    if i: "lookup st i = Some (ListObj xs)" for i xs
  proof -
    have lt: "i < length (heap st)" and ob: "heap st ! i = ListObj xs"
      using lookup_SomeD [OF i] by simp_all
    have "(heap st)[i := ListObj (xs @ [x])] ! i \<noteq> heap st ! i"
      using lt ob by simp
    then have "(heap st)[i := ListObj (xs @ [x])] \<noteq> heap st"
      by metis
    then show ?thesis
      using lt by (simp add: lookup_heap_update)
  qed
  have added: "lookup (snd (add_book l x st)) lb = Some (ListObj (bs @ [x]))
        \<and> heap (snd (add_book l x st)) \<noteq> heap st"
    if "lookup st l = Some (LibraryObj lname lb)" and lb: "lookup st lb = Some (ListObj bs)"
    using grows [OF lb] by (simp add: add_book_run [OF that])
  have borrowed: "lookup (snd (borrow_book m x st)) bl = Some (ListObj (cs @ [x]))
        \<and> heap (snd (borrow_book m x st)) \<noteq> heap st"
    if "lookup st m = Some (LibraryMemberObj usr bl)" and bl: "lookup st bl = Some (ListObj cs)"
    using grows [OF bl] by (simp add: borrow_book_run [OF that])
  show ?thesis
    using get_info_pure [of r st] get_user_info_pure [of r st] Library_str_pure [of r st]
      Library_len_pure [of r st] get_borrowed_books_pure [of r st] Rating_str_pure [of r st]
      Rating_add_allocates [of a b st] rejected accepted added borrowed
    by blast
qed

theorem methods_and_state_witness:
  "lookup (run_calls sample_calls init_state) 1 = Some (UserObj ''Alice'' 28)
   \<and> lookup (run_calls sample_calls init_state) 3 = Some (LibraryObj ''City Library'' 2)
   \<and> lookup (run_calls sample_calls init_state) 2 = Some (ListObj [0])
   \<and> lookup (run_calls sample_calls init_state) 5 = Some (LibraryMemberObj 1 4)
   \<and> lookup (run_calls sample_calls init_state) 4 = Some (ListObj [])
   \<and> heap (snd (set_age 1 0 (run_calls sample_calls init_state)))
       = heap (run_calls sample_calls init_state)
   \<and> lookup (snd (set_age 1 29 (run_calls sample_calls init_state))) 1 = Some (UserObj ''Alice'' 29)
   \<and> lookup (snd (add_book 3 0 (run_calls sample_calls init_state))) 2 = Some (ListObj [0, 0])
   \<and> lookup (snd (borrow_book 5 0 (run_calls sample_calls init_state))) 4 = Some (ListObj [0])"
proof -
  let ?S = "run_calls sample_calls init_state"
  from methods_and_state [of 0 ?S 0 0 0 1]
  have a: "heap (snd (set_age 1 0 ?S)) = heap ?S"
    by simp
  from methods_and_state [of 0 ?S 0 0 29 1 "''Alice''" 28 3 "''City Library''" 2 "[0]" 0 5 1 4 "[]"]
    sample_lookup
  have b: "lookup (snd (set_age 1 29 ?S)) 1 = Some (UserObj ''Alice'' 29)"
    and c: "lookup (snd (add_book 3 0 ?S)) 2 = Some (ListObj ([0] @ [0]))"
    and d: "lookup (snd (borrow_book 5 0 ?S)) 4 = Some (ListObj ([] @ [0]))"
    by simp_all
  show ?thesis
    using a b c d sample_lookup by simp
qed

section \<open>Adding ratings\<close>







section \<open>The files the lessons create\<close>

lemma str_attr_pure: "snd (str_attr v st) = st"
  by (simp add: str_attr_def return_ok_def format_int_def split: attr.split)

lemma print_dict_files: "files (snd (print_dict d st)) = files st"
proof -
  have "snd (for_each (\<lambda>(k, v). str_attr v) d st) = st"
    by (rule for_each_pure) (simp add: str_attr_pure split: prod.split)
  then obtain r where "for_each (\<lambda>(k, v). str_attr v) d st = (r, st)"
    by (cases "for_each (\<lambda>(k, v). str_attr v) d st") simp
  then show ?thesis
    by (simp add: print_dict_def then_do_def print_def split: sum.split)
qed

lemma file_manager_example_files:
  "files (snd (file_manager_example st)) = (files st)(''data.txt'' \<mapsto> ''Hello OOP!'')"
  by (simp add: file_manager_example_def then_do_def new_FileManager_def alloc_def
      write_file_def FileManager_filename_def write_text_def read_file_def read_text_def
      print_def lookup_def)

lemma files_restored:
  "files st name = None \<Longrightarrow> st\<lparr>files := ((files st)(name \<mapsto> s))(name := None)\<rparr> = st"
  by (simp add: fun_upd_idem)

lemma with_temporary_file_run:
  assumes "files st name = None"
    and "body name (st\<lparr>files := (files st)(name \<mapsto> [])\<rparr>) = (r, st1)"
    and "files st1 name \<noteq> None"
  shows "with_temporary_file name body st = (r, st1\<lparr>files := (files st1)(name := None)\<rparr>)"
  using assms
  by (auto simp: with_temporary_file_def then_do_def NamedTemporaryFile_def try_finally_def
      os_remove_def)

lemma temporary_file_example_files:
  "files (snd (temporary_file_example tmp st)) = files st"
proof (cases "files st tmp")
  case None
  then have "(files st)(tmp := None) = files st"
    by (simp add: fun_upd_idem)
  then show ?thesis
    using None
    by (simp add: temporary_file_example_def with_temporary_file_def then_do_def
        NamedTemporaryFile_def try_finally_def print_def os_remove_def)
next
  case (Some s)
  then show ?thesis
    by (simp add: temporary_file_example_def with_temporary_file_def then_do_def
        NamedTemporaryFile_def)
qed

text \<open>
  Claim C3, as the specification states it, says that an example which creates \<open>data.txt\<close>,
  \<open>data.json\<close> or \<open>data.pkl\<close> also deletes it. It fails on the pickling example: run where
  no file exists, it leaves \<open>data.pkl\<close> behind. (The encoder is a parameter of the example;
  here the text form of the dictionary stands for the pickle.)
\<close>

theorem scratch_file_deleted_counterexample:
  "files init_state ''data.pkl'' = None
   \<and> files (snd (pickling_example repr_dict init_state)) ''data.pkl'' = Some (repr_dict data)"
  by (simp add: init_state_def pickling_example_def write_text_def)

text \<open>
  Claim C3, amended. The pickling example creates \<open>data.pkl\<close>, the example that saves
  JSON creates \<open>data.json\<close> and the \<open>FileManager\<close> example creates \<open>data.txt\<close>; each leaves
  its file in place with what it wrote, and changes no other file. The examples that load
  \<open>data.pkl\<close> and \<open>data.json\<close> read the file and leave every file as it is. Only the
  \<open>temporary_file\<close> example removes the file it creates. Given a name that no file has,
  the context manager creates an empty file under it, its body runs while the file is
  there (a body that reads the file gets the empty text), and the file is removed when the
  body is left, also when the body raises; the example itself prints the name and returns
  with the state otherwise as before. Whatever the name, the files after the example are
  the files before it.
\<close>

theorem scratch_files_are_left_in_place:
  "files (snd (pickling_example pickle_dumps st)) = (files st)(''data.pkl'' \<mapsto> pickle_dumps data)
   \<and> files (snd (unpickling_example pickle_loads st)) = files st
   \<and> files (snd (json_saving_example json_dumps st)) = (files st)(''data.json'' \<mapsto> json_dumps data 4)
   \<and> files (snd (json_loading_example json_loads st)) = files st
   \<and> files (snd (file_manager_example st)) = (files st)(''data.txt'' \<mapsto> ''Hello OOP!'')
   \<and> files (snd (temporary_file_example tmp st)) = files st
   \<and> (files st tmp = None \<longrightarrow>
        NamedTemporaryFile tmp st = (Inr tmp, st\<lparr>files := (files st)(tmp \<mapsto> [])\<rparr>)
        \<and> with_temporary_file tmp read_text st = (Inr [], st)
        \<and> with_temporary_file tmp (\<lambda>filename. raise e) st = (Inl e, st)
        \<and> temporary_file_example tmp st =
            (Inr (), st\<lparr>stdout := stdout st @ ''Temporary file created: '' @ tmp @ [newline]\<rparr>))
   \<and> (files st tmp = None \<and> body tmp (st\<lparr>files := (files st)(tmp \<mapsto> [])\<rparr>) = (r, st1)
        \<and> files st1 tmp \<noteq> None \<longrightarrow>
        with_temporary_file tmp body st = (r, st1\<lparr>files := (files st1)(tmp := None)\<rparr>))"
proof -
  have pickle: "files (snd (pickling_example pickle_dumps st))
      = (files st)(''data.pkl'' \<mapsto> pickle_dumps data)"
    by (simp add: pickling_example_def write_text_def)
  have unpickle: "files (snd (unpickling_example pickle_loads st)) = files st"
    by (simp add: unpickling_example_def then_do_def read_text_def raise_def print_dict_files
        split: option.split sum.split)
  have json: "files (snd (json_saving_example json_dumps st))
      = (files st)(''data.json'' \<mapsto> json_dumps data 4)"
    by (simp add: json_saving_example_def write_text_def)
  have load: "files (snd (json_loading_example json_loads st)) = files st"
    by (simp add: json_loading_example_def then_do_def read_text_def raise_def print_dict_files
        split: option.split sum.split)
  have temp: "NamedTemporaryFile tmp st = (Inr tmp, st\<lparr>files := (files st)(tmp \<mapsto> [])\<rparr>)
        \<and> with_temporary_file tmp read_text st = (Inr [], st)
        \<and> with_temporary_file tmp (\<lambda>filename. raise e) st = (Inl e, st)
        \<and> temporary_file_example tmp st =
            (Inr (), st\<lparr>stdout := stdout st @ ''Temporary file created: '' @ tmp @ [newline]\<rparr>)"
    if fresh: "files st tmp = None"
  proof -
    let ?st = "st\<lparr>files := (files st)(tmp \<mapsto> [])\<rparr>"
    have made: "NamedTemporaryFile tmp st = (Inr tmp, ?st)"
      using fresh by (simp add: NamedTemporaryFile_def)
    have undone: "?st\<lparr>files := (files ?st)(tmp := None)\<rparr> = st"
      using files_restored [OF fresh, of "[]"] by simp
    have "with_temporary_file tmp read_text st =
        (Inr [], ?st\<lparr>files := (files ?st)(tmp := None)\<rparr>)"
      using fresh by (rule with_temporary_file_run) (simp_all add: read_text_def)
    then have reads: "with_temporary_file tmp read_text st = (Inr [], st)"
      unfolding undone .
    have "with_temporary_file tmp (\<lambda>filename. raise e) st =
        (Inl e, ?st\<lparr>files := (files ?st)(tmp := None)\<rparr>)"
      using fresh by (rule with_temporary_file_run) (simp_all add: raise_def)
    then have raises: "with_temporary_file tmp (\<lambda>filename. raise e) st = (Inl e, st)"
      unfolding undone .
    let ?out = "stdout st @ ''Temporary file created: '' @ tmp @ [newline]"
    have "with_temporary_file tmp (\<lambda>filename. print (''Temporary file created: '' @ filename)) st =
        (Inr (), (?st\<lparr>stdout := ?out\<rparr>)\<lparr>files := (files (?st\<lparr>stdout := ?out\<rparr>))(tmp := None)\<rparr>)"
      using fresh by (rule with_temporary_file_run) (simp_all add: print_def)
    moreover have "(?st\<lparr>stdout := ?out\<rparr>)\<lparr>files := (files (?st\<lparr>stdout := ?out\<rparr>))(tmp := None)\<rparr>
        = st\<lparr>stdout := ?out\<rparr>"
      using fresh by (simp add: fun_upd_idem)
    ultimately have example: "temporary_file_example tmp st = (Inr (), st\<lparr>stdout := ?out\<rparr>)"
      by (simp add: temporary_file_example_def)
    show ?thesis
      using made reads raises example by simp
  qed
  have general: "with_temporary_file tmp body st = (r, st1\<lparr>files := (files st1)(tmp := None)\<rparr>)"
    if "files st tmp = None \<and> body tmp (st\<lparr>files := (files st)(tmp \<mapsto> [])\<rparr>) = (r, st1)
        \<and> files st1 tmp \<noteq> None"
    using that with_temporary_file_run [of st tmp body r st1] by simp
  show ?thesis
    using pickle unpickle json load file_manager_example_files [of st]
      temporary_file_example_files [of tmp st] temp general
    by blast
qed

theorem scratch_files_are_left_in_place_witness:
  "files init_state ''/tmp/tmpk3x9'' = None
   \<and> NamedTemporaryFile ''/tmp/tmpk3x9'' init_state
       = (Inr ''/tmp/tmpk3x9'', init_state\<lparr>files := [''/tmp/tmpk3x9'' \<mapsto> []]\<rparr>)
   \<and> files (init_state\<lparr>files := [''/tmp/tmpk3x9'' \<mapsto> []]\<rparr>) ''/tmp/tmpk3x9'' \<noteq> None
   \<and> with_temporary_file ''/tmp/tmpk3x9'' read_text init_state = (Inr [], init_state)
   \<and> with_temporary_file ''/tmp/tmpk3x9'' return_ok init_state = (Inr ''/tmp/tmpk3x9'', init_state)
   \<and> fst (temporary_file_example ''/tmp/tmpk3x9'' init_state) = Inr ()
   \<and> files (snd (temporary_file_example ''/tmp/tmpk3x9'' init_state)) = Map.empty
   \<and> files (snd (file_manager_example init_state)) = [''data.txt'' \<mapsto> ''Hello OOP!'']"
proof -
  let ?tmp = "''/tmp/tmpk3x9''"
  let ?made = "init_state\<lparr>files := (files init_state)(?tmp \<mapsto> [])\<rparr>"
  have pre: "files init_state ?tmp = None" and emp: "files init_state = Map.empty"
    by (simp_all add: init_state_def)
  have body: "return_ok ?tmp ?made = (Inr ?tmp, ?made)" and there: "files ?made ?tmp \<noteq> None"
    by (simp_all add: return_ok_def)
  note claim = scratch_files_are_left_in_place
    [where st = init_state and tmp = ?tmp and body = return_ok and r = "Inr ?tmp"
      and ?st1.0 = ?made]
  from claim pre
  have made: "NamedTemporaryFile ?tmp init_state = (Inr ?tmp, ?made)"
    and reads: "with_temporary_file ?tmp read_text init_state = (Inr [], init_state)"
    and ex: "temporary_file_example ?tmp init_state =
      (Inr (), init_state\<lparr>stdout := stdout init_state @ ''Temporary file created: '' @ ?tmp @ [newline]\<rparr>)"
    and rest: "files (snd (temporary_file_example ?tmp init_state)) = files init_state"
    and text_file: "files (snd (file_manager_example init_state)) = (files init_state)(''data.txt'' \<mapsto> ''Hello OOP!'')"
    by blast+
  from claim pre body there
  have "with_temporary_file ?tmp return_ok init_state =
      (Inr ?tmp, ?made\<lparr>files := (files ?made)(?tmp := None)\<rparr>)"
    by blast
  moreover have "?made\<lparr>files := (files ?made)(?tmp := None)\<rparr> = init_state"
    using files_restored [OF pre, of "[]"] by simp
  ultimately have gen: "with_temporary_file ?tmp return_ok init_state = (Inr ?tmp, init_state)"
    by simp
  show ?thesis
    using pre made reads ex rest text_file gen there by (simp add: emp)
qed

section \<open>Running the notebook\<close>

lemmas run_defs =
  then_do_def return_ok_def raise_def alloc_def store_def print_def lookup_def
  get_var_def set_var_def get_ref_def get_class_def class_statement_def
  format_int_def within_digit_limit_def str_digits_samples
  new_Book_def Book_init_def book_attrs_def Book_get_info_def get_info_def
  new_User_def get_user_info_def
  new_Library_def Library_name_def Library_books_def list_items_def list_append_def
  add_book_def Library_str_def Library_len_def
  new_EBook_def EBook_file_size_def EBook_get_info_def
  new_AudioBook_def AudioBook_duration_def AudioBook_get_info_def
  new_LibraryMember_def LibraryMember_borrowed_books_def borrow_book_def get_borrowed_books_def
  new_Rating_def Rating_rating_def Rating_add_def Rating_str_def

lemma cell_01_run:
  "cell_01 st = (Inr (), st\<lparr>globals := (globals st)(''Book'' \<mapsto> Cls (type_new ''Book'' [] [(''__doc__'', AStr ''A class representing a book.'')]))\<rparr>)"
  by (simp add: cell_01_def run_defs)

lemma cell_02_run:
  "int_max_str_digits st = 4300 \<Longrightarrow> globals st ''Book'' = Some (Cls c) \<Longrightarrow>
   cell_02 st =
     (Inr (), st\<lparr>heap := heap st @ [BookObj \<lparr>title = ''1984'', author = ''George Orwell'', year = 1949\<rparr>],
               globals := (globals st)(''book1'' \<mapsto> Obj (length (heap st))),
               stdout := stdout st @ ''1984 by George Orwell, published in 1949'' @ [newline]\<rparr>)"
  by (simp add: cell_02_def run_defs str_int_samples)

lemma cell_03_run:
  "cell_03 st = (Inr (), st\<lparr>globals := (globals st)(''User'' \<mapsto> Cls (type_new ''User'' [] [(''__doc__'', AStr ''A class representing a library user.'')]))\<rparr>)"
  by (simp add: cell_03_def run_defs)

lemma cell_04_run:
  "int_max_str_digits st = 4300 \<Longrightarrow> globals st ''User'' = Some (Cls c) \<Longrightarrow>
   cell_04 st =
     (Inr (), st\<lparr>heap := heap st @ [UserObj ''Alice'' 28],
               globals := (globals st)(''user1'' \<mapsto> Obj (length (heap st))),
               stdout := stdout st @ ''User: Alice, Age: 28'' @ [newline]\<rparr>)"
  by (simp add: cell_04_def run_defs str_int_samples)

lemma cell_05_run:
  "globals st ''Book'' = Some b \<Longrightarrow>
   cell_05 st = (Inr (), st\<lparr>globals := (globals st)(''Library'' \<mapsto> Cls (type_new ''Library'' [] [(''__doc__'', AStr ''A class representing a library.'')]))\<rparr>)"
  by (simp add: cell_05_def run_defs)

lemma cell_06_run:
  "globals st ''Library'' = Some (Cls c) \<Longrightarrow> globals st ''book1'' = Some (Obj b) \<Longrightarrow>
   cell_06 st =
     (Inr (), st\<lparr>heap := heap st @ [ListObj [b], LibraryObj ''City Library'' (length (heap st))],
               globals := (globals st)(''library'' \<mapsto> Obj (Suc (length (heap st)))),
               stdout := stdout st @ ''Library: City Library with 1 books'' @ [newline]
                           @ ''Number of books: 1'' @ [newline]\<rparr>)"
  by (simp add: cell_06_def run_defs str_int_digits nth_append)

lemma cell_07_run:
  "globals st ''Book'' = Some (Cls c) \<Longrightarrow>
   cell_07 st = (Inr (), st\<lparr>globals := (globals st)(''EBook'' \<mapsto> Cls (type_new ''EBook'' [c] [(''__doc__'', AStr ''A subclass of Book representing an E-Book.'')]))\<rparr>)"
  by (simp add: cell_07_def run_defs)

lemma cell_08_run:
  "int_max_str_digits st = 4300 \<Longrightarrow> globals st ''EBook'' = Some (Cls c) \<Longrightarrow>
   cell_08 st =
     (Inr (), st\<lparr>heap := heap st @ [EBookObj \<lparr>title = ''Python Guide'', author = ''John Doe'', year = 2022\<rparr> 5],
               globals := (globals st)(''ebook1'' \<mapsto> Obj (length (heap st))),
               stdout := stdout st
                 @ ''Python Guide by John Doe, published in 2022 (File size: 5MB)'' @ [newline]\<rparr>)"
  by (simp add: cell_08_def run_defs str_int_samples)

lemma cell_09_run:
  "globals st ''Book'' = Some (Cls c) \<Longrightarrow>
   cell_09 st = (Inr (), st\<lparr>globals := (globals st)(''AudioBook'' \<mapsto> Cls (type_new ''AudioBook'' [c] [(''__doc__'', AStr ''A subclass representing an audiobook.'')]))\<rparr>)"
  by (simp add: cell_09_def run_defs)

lemma cell_10_run:
  "int_max_str_digits st = 4300 \<Longrightarrow> globals st ''AudioBook'' = Some (Cls c) \<Longrightarrow>
   cell_10 st =
     (Inr (), st\<lparr>heap := heap st @ [AudioBookObj \<lparr>title = ''Learn Python'', author = ''Jane Doe'', year = 2023\<rparr> 300],
               globals := (globals st)(''audiobook1'' \<mapsto> Obj (length (heap st))),
               stdout := stdout st
                 @ ''Learn Python by Jane Doe, published in 2023 (Duration: 300 min)'' @ [newline]\<rparr>)"
  by (simp add: cell_10_def run_defs str_int_samples)

lemma cell_11_run:
  "globals st ''User'' = Some a \<Longrightarrow> globals st ''Book'' = Some b \<Longrightarrow>
   cell_11 st = (Inr (), st\<lparr>globals := (globals st)(''LibraryMember'' \<mapsto> Cls (type_new ''LibraryMember'' [] [(''__doc__'', AStr ''A class representing a library member.'')]))\<rparr>)"
  by (simp add: cell_11_def run_defs)

lemma cell_12_run:
  "int_max_str_digits st = 4300 \<Longrightarrow> globals st ''LibraryMember'' = Some (Cls c) \<Longrightarrow>
   globals st ''user1'' = Some (Obj u) \<Longrightarrow> globals st ''book1'' = Some (Obj b) \<Longrightarrow>
   lookup st b = Some (BookObj \<lparr>title = ''1984'', author = ''George Orwell'', year = 1949\<rparr>) \<Longrightarrow>
   cell_12 st =
     (Inr (), st\<lparr>heap := heap st @ [ListObj [b], LibraryMemberObj u (length (heap st))],
               globals := (globals st)(''member1'' \<mapsto> Obj (Suc (length (heap st)))),
               stdout := stdout st @ ''['' @ [CHR 0x27]
                 @ ''1984 by George Orwell, published in 1949'' @ [CHR 0x27] @ '']'' @ [newline]\<rparr>)"
  by (simp add: cell_12_def run_defs str_int_samples nth_append repr_str_list_def repr_str_def
      repr_char_def Let_def split: if_splits)

lemma cell_13_run:
  "cell_13 st = (Inr (), st\<lparr>globals := (globals st)(''Rating'' \<mapsto> Cls (type_new ''Rating'' [] [(''__doc__'', AStr ''A class to store book ratings.'')]))\<rparr>)"
  by (simp add: cell_13_def run_defs)

lemma cell_14_run:
  "int_max_str_digits st = 4300 \<Longrightarrow> globals st ''Rating'' = Some (Cls c) \<Longrightarrow>
   cell_14 st =
     (Inr (), st\<lparr>heap := heap st @ [RatingObj 4, RatingObj 5, RatingObj 9],
               globals := (globals st)(''rating1'' \<mapsto> Obj (length (heap st)),
                                       ''rating2'' \<mapsto> Obj (Suc (length (heap st))),
                                       ''final_rating'' \<mapsto> Obj (Suc (Suc (length (heap st))))),
               stdout := stdout st @ ''Rating: 9/5'' @ [newline]\<rparr>)"
  by (simp add: cell_14_def run_defs str_int_digits nth_append)

lemma cell_15_run:
  "cell_15 st =
     (Inr (), st\<lparr>globals := (globals st)
        (''MetaBook'' \<mapsto> Cls (type_new ''MetaBook'' [builtin_type] [(''__doc__'', AStr ''A metaclass for books.'')]),
         ''SpecialBook'' \<mapsto> Cls (MetaBook_new ''SpecialBook'' [] SpecialBook_body))\<rparr>)"
  by (simp add: cell_15_def run_defs)

lemma cell_16_run:
  "globals st ''SpecialBook'' = Some (Cls (MetaBook_new name bases dct)) \<Longrightarrow>
   cell_16 st = (Inr (), st\<lparr>stdout := stdout st @ ''General'' @ [newline]\<rparr>)"
  by (simp add: cell_16_def run_defs MetaBook_new_def type_new_def map_of_dict_set str_attr_def)

lemma run_cells_step:
  assumes "c (st\<lparr>stdout := []\<rparr>) = (Inr (), st1)"
  shows "fst (run_cells (c # cs) st) = (stdout st1, None) # fst (run_cells cs st1)"
  using assms by (simp add: case_prod_unfold)

text \<open>
  Claim C4. Running the sixteen code cells of the notebook in order, from an interpreter
  that has no names and no objects yet, no cell raises, and each cell prints exactly the
  output recorded with it: nothing for the cells that only define a class, and the recorded
  lines for the others.
\<close>

theorem notebook_prints_recorded_output:
  "fst (run_cells notebook init_state) = map (\<lambda>text. (text, None)) recorded_output"
proof -
  let ?Book = "type_new ''Book'' [] [(''__doc__'', AStr ''A class representing a book.'')]"
  let ?g1 = "[''Book'' \<mapsto> Cls ?Book]"
  let ?s1 = "\<lparr>heap = [], globals = ?g1, stdout = [], files = Map.empty, int_max_str_digits = 4300\<rparr>"
  have c1: "cell_01 (init_state\<lparr>stdout := []\<rparr>) = (Inr (), ?s1)"
    by (simp add: cell_01_run init_state_def eval_nat_numeral)
  let ?g2 = "?g1(''book1'' \<mapsto> Obj 0)"
  let ?s2 = "\<lparr>heap = [BookObj \<lparr>title = ''1984'', author = ''George Orwell'', year = 1949\<rparr>], globals = ?g2, stdout = ''1984 by George Orwell, published in 1949'' @ [newline], files = Map.empty, int_max_str_digits = 4300\<rparr>"
  have c2: "cell_02 (?s1\<lparr>stdout := []\<rparr>) = (Inr (), ?s2)"
    by (simp add: cell_02_run [where c = "?Book"] eval_nat_numeral)
  let ?g3 = "?g2(''User'' \<mapsto> Cls (type_new ''User'' [] [(''__doc__'', AStr ''A class representing a library user.'')]))"
  let ?s3 = "\<lparr>heap = [BookObj \<lparr>title = ''1984'', author = ''George Orwell'', year = 1949\<rparr>], globals = ?g3, stdout = [], files = Map.empty, int_max_str_digits = 4300\<rparr>"
  have c3: "cell_03 (?s2\<lparr>stdout := []\<rparr>) = (Inr (), ?s3)"
    by (simp add: cell_03_run eval_nat_numeral)
  let ?g4 = "?g3(''user1'' \<mapsto> Obj 1)"
  let ?s4 = "\<lparr>heap = [BookObj \<lparr>title = ''1984'', author = ''George Orwell'', year = 1949\<rparr>, UserObj ''Alice'' 28], globals = ?g4, stdout = ''User: Alice, Age: 28'' @ [newline], files = Map.empty, int_max_str_digits = 4300\<rparr>"
  have c4: "cell_04 (?s3\<lparr>stdout := []\<rparr>) = (Inr (), ?s4)"
    by (simp add: cell_04_run [where c = "type_new ''User'' [] [(''__doc__'', AStr ''A class representing a library user.'')]"] eval_nat_numeral)
  let ?g5 = "?g4(''Library'' \<mapsto> Cls (type_new ''Library'' [] [(''__doc__'', AStr ''A class representing a library.'')]))"
  let ?s5 = "\<lparr>heap = [BookObj \<lparr>title = ''1984'', author = ''George Orwell'', year = 1949\<rparr>, UserObj ''Alice'' 28], globals = ?g5, stdout = [], files = Map.empty, int_max_str_digits = 4300\<rparr>"
  have c5: "cell_05 (?s4\<lparr>stdout := []\<rparr>) = (Inr (), ?s5)"
    by (simp add: cell_05_run [where b = "Cls ?Book"] eval_nat_numeral)
  let ?g6 = "?g5(''library'' \<mapsto> Obj 3)"
  let ?s6 = "\<lparr>heap = [BookObj \<lparr>title = ''1984'', author = ''George Orwell'', year = 1949\<rparr>, UserObj ''Alice'' 28, ListObj [0], LibraryObj ''City Library'' 2], globals = ?g6, stdout = ''Library: City Library with 1 books'' @ [newline] @ ''Number of books: 1'' @ [newline], files = Map.empty, int_max_str_digits = 4300\<rparr>"
  have c6: "cell_06 (?s5\<lparr>stdout := []\<rparr>) = (Inr (), ?s6)"
    by (simp add: cell_06_run [where b = 0 and c = "type_new ''Library'' [] [(''__doc__'', AStr ''A class representing a library.'')]"] eval_nat_numeral)
  let ?g7 = "?g6(''EBook'' \<mapsto> Cls (type_new ''EBook'' [?Book] [(''__doc__'', AStr ''A subclass of Book representing an E-Book.'')]))"
  let ?s7 = "\<lparr>heap = [BookObj \<lparr>title = ''1984'', author = ''George Orwell'', year = 1949\<rparr>, UserObj ''Alice'' 28, ListObj [0], LibraryObj ''City Library'' 2], globals = ?g7, stdout = [], files = Map.empty, int_max_str_digits = 4300\<rparr>"
  have c7: "cell_07 (?s6\<lparr>stdout := []\<rparr>) = (Inr (), ?s7)"
    by (simp add: cell_07_run [where c = "?Book"] eval_nat_numeral)
  let ?g8 = "?g7(''ebook1'' \<mapsto> Obj 4)"
  let ?s8 = "\<lparr>heap = [BookObj \<lparr>title = ''1984'', author = ''George Orwell'', year = 1949\<rparr>, UserObj ''Alice'' 28, ListObj [0], LibraryObj ''City Library'' 2, EBookObj \<lparr>title = ''Python Guide'', author = ''John Doe'', year = 2022\<rparr> 5], globals = ?g8, stdout = ''Python Guide by John Doe, published in 2022 (File size: 5MB)'' @ [newline], files = Map.empty, int_max_str_digits = 4300\<rparr>"
  have c8: "cell_08 (?s7\<lparr>stdout := []\<rparr>) = (Inr (), ?s8)"
    by (simp add: cell_08_run [where c = "type_new ''EBook'' [?Book] [(''__doc__'', AStr ''A subclass of Book representing an E-Book.'')]"] eval_nat_numeral)
  let ?g9 = "?g8(''AudioBook'' \<mapsto> Cls (type_new ''AudioBook'' [?Book] [(''__doc__'', AStr ''A subclass representing an audiobook.'')]))"
  let ?s9 = "\<lparr>heap = [BookObj \<lparr>title = ''1984'', author = ''George Orwell'', year = 1949\<rparr>, UserObj ''Alice'' 28, ListObj [0], LibraryObj ''City Library'' 2, EBookObj \<lparr>title = ''Python Guide'', author = ''John Doe'', year = 2022\<rparr> 5], globals = ?g9, stdout = [], files = Map.empty, int_max_str_digits = 4300\<rparr>"
  have c9: "cell_09 (?s8\<lparr>stdout := []\<rparr>) = (Inr (), ?s9)"
    by (simp add: cell_09_run [where c = "?Book"] eval_nat_numeral)
  let ?g10 = "?g9(''audiobook1'' \<mapsto> Obj 5)"
  let ?s10 = "\<lparr>heap = [BookObj \<lparr>title = ''1984'', author = ''George Orwell'', year = 1949\<rparr>, UserObj ''Alice'' 28, ListObj [0], LibraryObj ''City Library'' 2, EBookObj \<lparr>title = ''Python Guide'', author = ''John Doe'', year = 2022\<rparr> 5, AudioBookObj \<lparr>title = ''Learn Python'', author = ''Jane Doe'', year = 2023\<rparr> 300], globals = ?g10, stdout = ''Learn Python by Jane Doe, published in 2023 (Duration: 300 min)'' @ [newline], files = Map.empty, int_max_str_digits = 4300\<rparr>"
  have c10: "cell_10 (?s9\<lparr>stdout := []\<rparr>) = (Inr (), ?s10)"
    by (simp add: cell_10_run [where c = "type_new ''AudioBook'' [?Book] [(''__doc__'', AStr ''A subclass representing an audiobook.'')]"] eval_nat_numeral)
  let ?g11 = "?g10(''LibraryMember'' \<mapsto> Cls (type_new ''LibraryMember'' [] [(''__doc__'', AStr ''A class representing a library member.'')]))"
  let ?s11 = "\<lparr>heap = [BookObj \<lparr>title = ''1984'', author = ''George Orwell'', year = 1949\<rparr>, UserObj ''Alice'' 28, ListObj [0], LibraryObj ''City Library'' 2, EBookObj \<lparr>title = ''Python Guide'', author = ''John Doe'', year = 2022\<rparr> 5, AudioBookObj \<lparr>title = ''Learn Python'', author = ''Jane Doe'', year = 2023\<rparr> 300], globals = ?g11, stdout = [], files = Map.empty, int_max_str_digits = 4300\<rparr>"
  have c11: "cell_11 (?s10\<lparr>stdout := []\<rparr>) = (Inr (), ?s11)"
    by (simp add: cell_11_run [where a = "Cls (type_new ''User'' [] [(''__doc__'', AStr ''A class representing a library user.'')])" and b = "Cls ?Book"] eval_nat_numeral)
  let ?g12 = "?g11(''member1'' \<mapsto> Obj 7)"
  let ?s12 = "\<lparr>heap = [BookObj \<lparr>title = ''1984'', author = ''George Orwell'', year = 1949\<rparr>, UserObj ''Alice'' 28, ListObj [0], LibraryObj ''City Library'' 2, EBookObj \<lparr>title = ''Python Guide'', author = ''John Doe'', year = 2022\<rparr> 5, AudioBookObj \<lparr>title = ''Learn Python'', author = ''Jane Doe'', year = 2023\<rparr> 300, ListObj [0], LibraryMemberObj 1 6], globals = ?g12, stdout = ''['' @ [CHR 0x27] @ ''1984 by George Orwell, published in 1949'' @ [CHR 0x27] @ '']'' @ [newline], files = Map.empty, int_max_str_digits = 4300\<rparr>"
  have c12: "cell_12 (?s11\<lparr>stdout := []\<rparr>) = (Inr (), ?s12)"
    by (simp add: cell_12_run [where u = 1 and b = 0 and c = "type_new ''LibraryMember'' [] [(''__doc__'', AStr ''A class representing a library member.'')]"] lookup_def eval_nat_numeral)
  let ?g13 = "?g12(''Rating'' \<mapsto> Cls (type_new ''Rating'' [] [(''__doc__'', AStr ''A class to store book ratings.'')]))"
  let ?s13 = "\<lparr>heap = [BookObj \<lparr>title = ''1984'', author = ''George Orwell'', year = 1949\<rparr>, UserObj ''Alice'' 28, ListObj [0], LibraryObj ''City Library'' 2, EBookObj \<lparr>title = ''Python Guide'', author = ''John Doe'', year = 2022\<rparr> 5, AudioBookObj \<lparr>title = ''Learn Python'', author = ''Jane Doe'', year = 2023\<rparr> 300, ListObj [0], LibraryMemberObj 1 6], globals = ?g13, stdout = [], files = Map.empty, int_max_str_digits = 4300\<rparr>"
  have c13: "cell_13 (?s12\<lparr>stdout := []\<rparr>) = (Inr (), ?s13)"
    by (simp add: cell_13_run eval_nat_numeral)
  let ?g14 = "?g13(''rating1'' \<mapsto> Obj 8, ''rating2'' \<mapsto> Obj 9, ''final_rating'' \<mapsto> Obj 10)"
  let ?s14 = "\<lparr>heap = [BookObj \<lparr>title = ''1984'', author = ''George Orwell'', year = 1949\<rparr>, UserObj ''Alice'' 28, ListObj [0], LibraryObj ''City Library'' 2, EBookObj \<lparr>title = ''Python Guide'', author = ''John Doe'', year = 2022\<rparr> 5, AudioBookObj \<lparr>title = ''Learn Python'', author = ''Jane Doe'', year = 2023\<rparr> 300, ListObj [0], LibraryMemberObj 1 6, RatingObj 4, RatingObj 5, RatingObj 9], globals = ?g14, stdout = ''Rating: 9/5'' @ [newline], files = Map.empty, int_max_str_digits = 4300\<rparr>"
  have c14: "cell_14 (?s13\<lparr>stdout := []\<rparr>) = (Inr (), ?s14)"
    by (simp add: cell_14_run [where c = "type_new ''Rating'' [] [(''__doc__'', AStr ''A class to store book ratings.'')]"] eval_nat_numeral)
  let ?g15 = "?g14(''MetaBook'' \<mapsto> Cls (type_new ''MetaBook'' [builtin_type] [(''__doc__'', AStr ''A metaclass for books.'')]), ''SpecialBook'' \<mapsto> Cls (MetaBook_new ''SpecialBook'' [] SpecialBook_body))"
  let ?s15 = "\<lparr>heap = [BookObj \<lparr>title = ''1984'', author = ''George Orwell'', year = 1949\<rparr>, UserObj ''Alice'' 28, ListObj [0], LibraryObj ''City Library'' 2, EBookObj \<lparr>title = ''Python Guide'', author = ''John Doe'', year = 2022\<rparr> 5, AudioBookObj \<lparr>title = ''Learn Python'', author = ''Jane Doe'', year = 2023\<rparr> 300, ListObj [0], LibraryMemberObj 1 6, RatingObj 4, RatingObj 5, RatingObj 9], globals = ?g15, stdout = [], files = Map.empty, int_max_str_digits = 4300\<rparr>"
  have c15: "cell_15 (?s14\<lparr>stdout := []\<rparr>) = (Inr (), ?s15)"
    by (simp add: cell_15_run eval_nat_numeral)
  let ?s16 = "\<lparr>heap = [BookObj \<lparr>title = ''1984'', author = ''George Orwell'', year = 1949\<rparr>, UserObj ''Alice'' 28, ListObj [0], LibraryObj ''City Library'' 2, EBookObj \<lparr>title = ''Python Guide'', author = ''John Doe'', year = 2022\<rparr> 5, AudioBookObj \<lparr>title = ''Learn Python'', author = ''Jane Doe'', year = 2023\<rparr> 300, ListObj [0], LibraryMemberObj 1 6, RatingObj 4, RatingObj 5, RatingObj 9], globals = ?g15, stdout = ''General'' @ [newline], files = Map.empty, int_max_str_digits = 4300\<rparr>"
  have c16: "cell_16 (?s15\<lparr>stdout := []\<rparr>) = (Inr (), ?s16)"
    by (simp add: cell_16_run [where name = "''SpecialBook''" and bases = "[]" and dct = SpecialBook_body] eval_nat_numeral)
  have "fst (run_cells notebook init_state) =
      [(stdout ?s1, None), (stdout ?s2, None), (stdout ?s3, None), (stdout ?s4, None), (stdout ?s5, None), (stdout ?s6, None), (stdout ?s7, None), (stdout ?s8, None), (stdout ?s9, None), (stdout ?s10, None), (stdout ?s11, None), (stdout ?s12, None), (stdout ?s13, None), (stdout ?s14, None), (stdout ?s15, None), (stdout ?s16, None)]"
    unfolding notebook_def
    by (simp only: run_cells_step [where c = cell_01 and st = init_state, OF c1]
      run_cells_step [where c = cell_02 and st = "?s1", OF c2]
      run_cells_step [where c = cell_03 and st = "?s2", OF c3]
      run_cells_step [where c = cell_04 and st = "?s3", OF c4]
      run_cells_step [where c = cell_05 and st = "?s4", OF c5]
      run_cells_step [where c = cell_06 and st = "?s5", OF c6]
      run_cells_step [where c = cell_07 and st = "?s6", OF c7]
      run_cells_step [where c = cell_08 and st = "?s7", OF c8]
      run_cells_step [where c = cell_09 and st = "?s8", OF c9]
      run_cells_step [where c = cell_10 and st = "?s9", OF c10]
      run_cells_step [where c = cell_11 and st = "?s10", OF c11]
      run_cells_step [where c = cell_12 and st = "?s11", OF c12]
      run_cells_step [where c = cell_13 and st = "?s12", OF c13]
      run_cells_step [where c = cell_14 and st = "?s13", OF c14]
      run_cells_step [where c = cell_15 and st = "?s14", OF c15]
      run_cells_step [where c = cell_16 and st = "?s15", OF c16]
      run_cells.simps(1) fst_conv)
  then show ?thesis
    by (simp add: recorded_output_def)
qed

section \<open>The library and its books\<close>

text \<open>
  Claim C5. \<open>Library(name)\<close> makes a library whose list of books is empty. On a library
  that holds the books \<open>bs\<close>, \<open>add_book(b)\<close> appends \<open>b\<close>, \<open>len\<close> returns the number of
  books and \<open>str\<close> returns \<open>Library: {name} with {n} books\<close> for that same number. A new
  library to which the books of a list are added one after the other holds exactly that
  list, and \<open>len\<close> and \<open>str\<close> both show its length.
\<close>

theorem library_counts_its_books:
  "(let lb = length (heap st); l = Suc lb; st1 = snd (new_Library name st)
    in fst (new_Library name st) = Inr l
       \<and> lookup st1 l = Some (LibraryObj name lb)
       \<and> lookup st1 lb = Some (ListObj [])
       \<and> Library_len l st1 = (Inr 0, st1))
   \<and> (lookup st l = Some (LibraryObj name lb) \<and> lookup st lb = Some (ListObj bs) \<longrightarrow>
         add_book l b st = (Inr (), st\<lparr>heap := (heap st)[lb := ListObj (bs @ [b])]\<rparr>)
       \<and> lookup (snd (add_book l b st)) lb = Some (ListObj (bs @ [b]))
       \<and> lookup (snd (add_book l b st)) l = Some (LibraryObj name lb)
       \<and> Library_len l (snd (add_book l b st)) = (Inr (int (length bs) + 1), snd (add_book l b st))
       \<and> Library_len l st = (Inr (int (length bs)), st)
       \<and> Library_str l st =
           (Inr (''Library: '' @ name @ '' with '' @ str_int (int (length bs)) @ '' books''), st))
   \<and> (let lb = length (heap st); l = Suc lb;
          st2 = snd (then_do (new_Library name) (\<lambda>l. for_each (add_book l) books) st)
      in lookup st2 lb = Some (ListObj books)
       \<and> Library_len l st2 = (Inr (int (length books)), st2)
       \<and> Library_str l st2 =
           (Inr (''Library: '' @ name @ '' with '' @ str_int (int (length books)) @ '' books''), st2))"
proof -
  let ?lb = "length (heap st)"
  let ?st1 = "st\<lparr>heap := heap st @ [ListObj [], LibraryObj name ?lb]\<rparr>"
  have l1: "lookup ?st1 (Suc ?lb) = Some (LibraryObj name ?lb)"
    by (simp add: lookup_def nth_append)
  have lb1: "lookup ?st1 ?lb = Some (ListObj [])"
    by (simp add: lookup_def nth_append)
  have fresh: "let lb = length (heap st); l = Suc lb; st1 = snd (new_Library name st)
    in fst (new_Library name st) = Inr l
       \<and> lookup st1 l = Some (LibraryObj name lb)
       \<and> lookup st1 lb = Some (ListObj [])
       \<and> Library_len l st1 = (Inr 0, st1)"
    using Library_len_run [OF l1 lb1] by (simp add: new_Library_run l1 lb1)
  have "for_each (add_book (Suc ?lb)) books ?st1 =
     (Inr (map (\<lambda>b. ()) books), ?st1\<lparr>heap := (heap ?st1)[?lb := ListObj ([] @ books)]\<rparr>)"
    using l1 lb1 by (rule add_books_run)
  then have run: "snd (then_do (new_Library name) (\<lambda>l. for_each (add_book l) books) st) =
     st\<lparr>heap := heap st @ [ListObj books, LibraryObj name ?lb]\<rparr>"
    by (simp add: then_do_def new_Library_run list_update_append)
  let ?st2 = "st\<lparr>heap := heap st @ [ListObj books, LibraryObj name ?lb]\<rparr>"
  have l2: "lookup ?st2 (Suc ?lb) = Some (LibraryObj name ?lb)"
    by (simp add: lookup_def nth_append)
  have lb2: "lookup ?st2 ?lb = Some (ListObj books)"
    by (simp add: lookup_def nth_append)
  have filled: "let lb = length (heap st); l = Suc lb;
          st2 = snd (then_do (new_Library name) (\<lambda>l. for_each (add_book l) books) st)
      in lookup st2 lb = Some (ListObj books)
       \<and> Library_len l st2 = (Inr (int (length books)), st2)
       \<and> Library_str l st2 =
           (Inr (''Library: '' @ name @ '' with '' @ str_int (int (length books)) @ '' books''), st2)"
    unfolding run Let_def
    using Library_len_run [OF l2 lb2] Library_str_run [OF l2 lb2] lb2 by simp
  have step: "add_book l b st = (Inr (), st\<lparr>heap := (heap st)[lb := ListObj (bs @ [b])]\<rparr>)
       \<and> lookup (snd (add_book l b st)) lb = Some (ListObj (bs @ [b]))
       \<and> lookup (snd (add_book l b st)) l = Some (LibraryObj name lb)
       \<and> Library_len l (snd (add_book l b st)) = (Inr (int (length bs) + 1), snd (add_book l b st))
       \<and> Library_len l st = (Inr (int (length bs)), st)
       \<and> Library_str l st =
           (Inr (''Library: '' @ name @ '' with '' @ str_int (int (length bs)) @ '' books''), st)"
    if l: "lookup st l = Some (LibraryObj name lb)" and lb: "lookup st lb = Some (ListObj bs)"
  proof -
    let ?st = "st\<lparr>heap := (heap st)[lb := ListObj (bs @ [b])]\<rparr>"
    have lt: "lb < length (heap st)"
      using lookup_SomeD [OF lb] by simp
    have ne: "l \<noteq> lb"
      using l lb by auto
    have run: "add_book l b st = (Inr (), ?st)"
      using l lb by (rule add_book_run)
    have l': "lookup ?st l = Some (LibraryObj name lb)"
      using lt ne l by (simp add: lookup_heap_update)
    have lb': "lookup ?st lb = Some (ListObj (bs @ [b]))"
      using lt by (simp add: lookup_heap_update)
    show ?thesis
    using Library_len_run [OF l' lb'] Library_len_run [OF l lb] Library_str_run [OF l lb] l' lb'
    by (simp add: run)
  qed
  show ?thesis
    using fresh filled step by blast
qed

theorem library_counts_its_books_witness:
  "lookup (run_calls sample_calls init_state) 3 = Some (LibraryObj ''City Library'' 2)
   \<and> lookup (run_calls sample_calls init_state) 2 = Some (ListObj [0])
   \<and> lookup (snd (add_book 3 0 (run_calls sample_calls init_state))) 2 = Some (ListObj [0, 0])
   \<and> fst (Library_len 3 (run_calls sample_calls init_state)) = Inr 1
   \<and> fst (Library_str 3 (run_calls sample_calls init_state)) =
       Inr ''Library: City Library with 1 books''"
proof -
  let ?S = "run_calls sample_calls init_state"
  have pre: "lookup ?S 3 = Some (LibraryObj ''City Library'' 2) \<and> lookup ?S 2 = Some (ListObj [0])"
    by (simp add: sample_lookup)
  with library_counts_its_books [of ?S "''City Library''" 3 2 "[0]" 0 "[]"]
  have "lookup (snd (add_book 3 0 ?S)) 2 = Some (ListObj ([0] @ [0]))
      \<and> Library_len 3 ?S = (Inr (int (length [0::nat])), ?S)
      \<and> Library_str 3 ?S =
          (Inr (''Library: '' @ ''City Library'' @ '' with '' @ str_int (int (length [0::nat])) @ '' books''), ?S)"
    by blast
  then show ?thesis
    using pre by (simp add: str_int_digits)
qed

section \<open>Raising in the exception-handling lesson\<close>

text \<open>
  Claim C6. \<open>check_age(age)\<close> raises \<open>ValueError\<close> exactly when \<open>age < 0\<close>, and then prints
  nothing; otherwise it prints \<open>Valid age.\<close> and returns normally. On a bank account with
  balance \<open>balance\<close>, \<open>withdraw(amount)\<close> raises \<open>InsufficientFundsError\<close> exactly when
  \<open>amount > balance\<close>, and then leaves the state, so the balance, as it was; otherwise it
  returns normally and the balance is \<open>balance - amount\<close>.
\<close>

theorem raises_exactly_when_invalid:
  "((\<exists>msg. fst (check_age age st) = Inl (ValueError msg)) \<longleftrightarrow> age < 0)
   \<and> ((\<exists>e. fst (check_age age st) = Inl e) \<longleftrightarrow> age < 0)
   \<and> (age < 0 \<longrightarrow> snd (check_age age st) = st)
   \<and> (\<not> age < 0 \<longrightarrow>
        check_age age st = (Inr (), st\<lparr>stdout := stdout st @ ''Valid age.'' @ [newline]\<rparr>))
   \<and> (lookup st acct = Some (BankAccountObj balance) \<longrightarrow>
        ((\<exists>msg. fst (withdraw acct amount st) = Inl (InsufficientFundsError msg))
           \<longleftrightarrow> amount > balance)
      \<and> ((\<exists>e. fst (withdraw acct amount st) = Inl e) \<longleftrightarrow> amount > balance)
      \<and> (amount > balance \<longrightarrow>
           snd (withdraw acct amount st) = st
         \<and> lookup (snd (withdraw acct amount st)) acct = Some (BankAccountObj balance))
      \<and> (\<not> amount > balance \<longrightarrow>
           fst (withdraw acct amount st) = Inr ()
         \<and> lookup (snd (withdraw acct amount st)) acct = Some (BankAccountObj (balance - amount))
         \<and> (\<forall>r. r \<noteq> acct \<longrightarrow> lookup (snd (withdraw acct amount st)) r = lookup st r)))"
proof -
  have age: "((\<exists>msg. fst (check_age age st) = Inl (ValueError msg)) \<longleftrightarrow> age < 0)
   \<and> ((\<exists>e. fst (check_age age st) = Inl e) \<longleftrightarrow> age < 0)
   \<and> (age < 0 \<longrightarrow> snd (check_age age st) = st)
   \<and> (\<not> age < 0 \<longrightarrow>
        check_age age st = (Inr (), st\<lparr>stdout := stdout st @ ''Valid age.'' @ [newline]\<rparr>))"
    by (simp add: check_age_def raise_def print_def)
  have account: "((\<exists>msg. fst (withdraw acct amount st) = Inl (InsufficientFundsError msg))
           \<longleftrightarrow> amount > balance)
      \<and> ((\<exists>e. fst (withdraw acct amount st) = Inl e) \<longleftrightarrow> amount > balance)
      \<and> (amount > balance \<longrightarrow>
           snd (withdraw acct amount st) = st
         \<and> lookup (snd (withdraw acct amount st)) acct = Some (BankAccountObj balance))
      \<and> (\<not> amount > balance \<longrightarrow>
           fst (withdraw acct amount st) = Inr ()
         \<and> lookup (snd (withdraw acct amount st)) acct = Some (BankAccountObj (balance - amount))
         \<and> (\<forall>r. r \<noteq> acct \<longrightarrow> lookup (snd (withdraw acct amount st)) r = lookup st r))"
    if a: "lookup st acct = Some (BankAccountObj balance)"
  proof (cases "amount > balance")
    case True
    then show ?thesis
      using a by (simp add: withdraw_def raise_def)
  next
    case False
    have "acct < length (heap st)"
      using lookup_SomeD [OF a] by simp
    then show ?thesis
      using a False by (simp add: withdraw_def store_def lookup_heap_update)
  qed
  show ?thesis
    using age account by blast
qed

theorem raises_exactly_when_invalid_witness:
  "lookup one_account 0 = Some (BankAccountObj 100)
   \<and> fst (check_age (- 5) one_account) = Inl (ValueError ''Age cannot be negative.'')
   \<and> fst (check_age 5 one_account) = Inr ()
   \<and> fst (withdraw 0 200 one_account) =
       Inl (InsufficientFundsError ''Insufficient funds for this transaction.'')
   \<and> snd (withdraw 0 200 one_account) = one_account
   \<and> fst (withdraw 0 30 one_account) = Inr ()
   \<and> lookup (snd (withdraw 0 30 one_account)) 0 = Some (BankAccountObj 70)"
proof -
  have pre: "lookup one_account 0 = Some (BankAccountObj 100)"
    by (simp add: lookup_def one_account_heap)
  from raises_exactly_when_invalid [of "- 5" one_account 0 100 200] pre
  have a: "snd (withdraw 0 200 one_account) = one_account"
    by simp
  from raises_exactly_when_invalid [of 5 one_account 0 100 30] pre
  have b: "fst (check_age 5 one_account) = Inr ()"
    and c: "fst (withdraw 0 30 one_account) = Inr ()"
    and d: "lookup (snd (withdraw 0 30 one_account)) 0 = Some (BankAccountObj (100 - 30))"
    by simp_all
  have e: "fst (check_age (- 5) one_account) = Inl (ValueError ''Age cannot be negative.'')"
    by (simp add: check_age_def raise_def)
  have f: "fst (withdraw 0 200 one_account) =
       Inl (InsufficientFundsError ''Insufficient funds for this transaction.'')"
    using pre by (simp add: withdraw_def raise_def)
  show ?thesis
    using pre a b c d e f by simp
qed

section \<open>The metaclass\<close>

text \<open>
  Claim C7. Every class that \<open>MetaBook.__new__\<close> creates has the class attribute
  \<open>category\<close> with the value \<open>General\<close>, whatever its name, its bases and the namespace of
  its body, also when the body assigns \<open>category\<close> itself: the metaclass writes the entry
  over the namespace before the class is made. \<open>SpecialBook.category\<close> is \<open>General\<close>.
\<close>

theorem metabook_category_general:
  "class_getattr (MetaBook_new name bases dct) ''category'' = Some (AStr ''General'')
   \<and> class_getattr (MetaBook_new name bases ((''category'', v) # dct)) ''category''
       = Some (AStr ''General'')
   \<and> class_getattr (MetaBook_new ''SpecialBook'' [] SpecialBook_body) ''category''
       = Some (AStr ''General'')"
  by (simp add: MetaBook_new_def type_new_def map_of_dict_set)

section \<open>The subclasses of \<open>Book\<close>\<close>








section \<open>Changing the age of a user\<close>

text \<open>
  Claim C9. For a user \<open>u\<close> and an integer \<open>new_age\<close>: when \<open>new_age > 0\<close>,
  \<open>u.set_age(new_age)\<close> sets the age of \<open>u\<close> to \<open>new_age\<close> and keeps the name; when
  \<open>new_age \<le> 0\<close>, it returns normally, prints \<open>Invalid age!\<close> and leaves the whole store,
  so the age and the name of \<open>u\<close>, as it was. The constructor stores any age without a
  check: a user made with an age that is not positive holds that age, and \<open>set_age\<close> with
  the same age is refused.
\<close>

theorem set_age_checks_but_init_does_not:
  "(lookup st u = Some (UserObj name age) \<longrightarrow>
      (0 < new_age \<longrightarrow>
         set_age u new_age st = (Inr (), st\<lparr>heap := (heap st)[u := UserObj name new_age]\<rparr>)
       \<and> lookup (snd (set_age u new_age st)) u = Some (UserObj name new_age)
       \<and> (\<forall>r. r \<noteq> u \<longrightarrow> lookup (snd (set_age u new_age st)) r = lookup st r))
    \<and> (new_age \<le> 0 \<longrightarrow>
         set_age u new_age st = (Inr (), st\<lparr>stdout := stdout st @ ''Invalid age!'' @ [newline]\<rparr>)
       \<and> heap (snd (set_age u new_age st)) = heap st
       \<and> lookup (snd (set_age u new_age st)) u = Some (UserObj name age)))
   \<and> new_User name age st = (Inr (length (heap st)), st\<lparr>heap := heap st @ [UserObj name age]\<rparr>)
   \<and> (age \<le> 0 \<longrightarrow>
        (let u' = length (heap st); st1 = snd (new_User name age st)
         in lookup st1 u' = Some (UserObj name age)
            \<and> set_age u' age st1 =
                (Inr (), st1\<lparr>stdout := stdout st1 @ ''Invalid age!'' @ [newline]\<rparr>)))"
proof -
  have accepted: "set_age u new_age st = (Inr (), st\<lparr>heap := (heap st)[u := UserObj name new_age]\<rparr>)
       \<and> lookup (snd (set_age u new_age st)) u = Some (UserObj name new_age)
       \<and> (\<forall>r. r \<noteq> u \<longrightarrow> lookup (snd (set_age u new_age st)) r = lookup st r)"
    if u: "lookup st u = Some (UserObj name age)" and pos: "0 < new_age"
  proof -
    have "u < length (heap st)"
      using lookup_SomeD [OF u] by simp
    then show ?thesis
      by (simp add: set_age_accepts [OF u pos] lookup_heap_update)
  qed
  have refused: "set_age u new_age st = (Inr (), st\<lparr>stdout := stdout st @ ''Invalid age!'' @ [newline]\<rparr>)
       \<and> heap (snd (set_age u new_age st)) = heap st
       \<and> lookup (snd (set_age u new_age st)) u = Some (UserObj name age)"
    if u: "lookup st u = Some (UserObj name age)" and neg: "new_age \<le> 0"
    by (simp add: set_age_rejects [OF u neg] u)
  have new: "new_User name age st = (Inr (length (heap st)), st\<lparr>heap := heap st @ [UserObj name age]\<rparr>)"
    by (simp add: new_User_def alloc_def)
  have nocheck: "let u' = length (heap st); st1 = snd (new_User name age st)
         in lookup st1 u' = Some (UserObj name age)
            \<and> set_age u' age st1 =
                (Inr (), st1\<lparr>stdout := stdout st1 @ ''Invalid age!'' @ [newline]\<rparr>)"
    if neg: "age \<le> 0"
  proof -
    let ?st1 = "st\<lparr>heap := heap st @ [UserObj name age]\<rparr>"
    have u': "lookup ?st1 (length (heap st)) = Some (UserObj name age)"
      by (simp add: lookup_def)
    show ?thesis
      using set_age_rejects [OF u' neg] u' by (simp add: new)
  qed
  show ?thesis
    using accepted refused new nocheck by blast
qed

theorem set_age_checks_but_init_does_not_witness:
  "lookup one_user 0 = Some (UserObj ''Alice'' 28)
   \<and> (0::int) < 30 \<and> (0::int) \<le> 0 \<and> (- 3::int) \<le> 0
   \<and> set_age 0 30 one_user =
       (Inr (), one_user\<lparr>heap := [UserObj ''Alice'' 30, UserObj ''Bob'' (- 3)]\<rparr>)
   \<and> set_age 0 0 one_user =
       (Inr (), one_user\<lparr>stdout := stdout one_user @ ''Invalid age!'' @ [newline]\<rparr>)
   \<and> set_age 1 (- 3) one_user =
       (Inr (), one_user\<lparr>stdout := stdout one_user @ ''Invalid age!'' @ [newline]\<rparr>)"
proof -
  have pre: "lookup one_user 0 = Some (UserObj ''Alice'' 28)"
    "lookup one_user 1 = Some (UserObj ''Bob'' (- 3))"
    by (simp_all add: lookup_def one_user_heap)
  from set_age_checks_but_init_does_not [of one_user 0 "''Alice''" 28 30] pre
  have a: "set_age 0 30 one_user = (Inr (), one_user\<lparr>heap := (heap one_user)[0 := UserObj ''Alice'' 30]\<rparr>)"
    by simp
  from set_age_checks_but_init_does_not [of one_user 0 "''Alice''" 28 0] pre
  have b: "set_age 0 0 one_user =
       (Inr (), one_user\<lparr>stdout := stdout one_user @ ''Invalid age!'' @ [newline]\<rparr>)"
    by simp
  from set_age_checks_but_init_does_not [of one_user 1 "''Bob''" "- 3" "- 3"] pre
  have c: "set_age 1 (- 3) one_user =
       (Inr (), one_user\<lparr>stdout := stdout one_user @ ''Invalid age!'' @ [newline]\<rparr>)"
    by simp
  show ?thesis
    using pre a b c by (simp add: one_user_heap)
qed

section \<open>Borrowing a book\<close>

text \<open>
  Claim C10. In every state that calls on the notebook's classes can reach, for a library
  member \<open>m\<close> and any book \<open>b\<close>, \<open>m.borrow_book(b)\<close> returns normally and appends \<open>b\<close> to the
  list \<open>m.borrowed_books\<close>; a second call appends it again, so duplicates are kept. The
  attributes of \<open>m\<close> are as before, every object other than that list is as before, and so
  is every library together with its list of books: nothing is checked against a library
  and nothing is taken out of one.
\<close>

theorem borrow_book_appends_only:
  assumes st: "st = run_calls cs init_state"
    and m: "lookup st m = Some (LibraryMemberObj u bl)"
  shows "\<exists>bs. lookup st bl = Some (ListObj bs)
    \<and> borrow_book m b st = (Inr (), st\<lparr>heap := (heap st)[bl := ListObj (bs @ [b])]\<rparr>)
    \<and> lookup (snd (borrow_book m b st)) bl = Some (ListObj (bs @ [b]))
    \<and> lookup (snd (borrow_book m b (snd (borrow_book m b st)))) bl = Some (ListObj (bs @ [b, b]))
    \<and> lookup (snd (borrow_book m b st)) m = Some (LibraryMemberObj u bl)
    \<and> (\<forall>r. r \<noteq> bl \<longrightarrow> lookup (snd (borrow_book m b st)) r = lookup st r)
    \<and> (\<forall>l name lb. lookup st l = Some (LibraryObj name lb) \<longrightarrow>
          lookup (snd (borrow_book m b st)) l = Some (LibraryObj name lb) \<and>
          lookup (snd (borrow_book m b st)) lb = lookup st lb)"
proof -
  have inv: "lists_owned (heap st)"
    using st reachable_owned by simp
  have mlt: "m < length (heap st)" and mob: "heap st ! m = LibraryMemberObj u bl"
    using lookup_SomeD [OF m] by simp_all
  have bl: "bl < length (heap st)" and isl: "is_list (heap st ! bl)"
    using lists_owned_member [OF inv mlt mob] by simp_all
  obtain bs where bs: "heap st ! bl = ListObj bs"
    using isl by (cases "heap st ! bl") simp_all
  have lbl: "lookup st bl = Some (ListObj bs)"
    using bl bs by (simp add: lookup_def)
  have ne: "m \<noteq> bl"
    using mob bs by auto
  define st' where "st' = st\<lparr>heap := (heap st)[bl := ListObj (bs @ [b])]\<rparr>"
  have run: "borrow_book m b st = (Inr (), st')"
    unfolding st'_def using m lbl by (rule borrow_book_run)
  have look: "lookup st' r = (if r = bl then Some (ListObj (bs @ [b])) else lookup st r)" for r
    unfolding st'_def using bl by (rule lookup_heap_update)
  have m': "lookup st' m = Some (LibraryMemberObj u bl)"
    using look [of m] ne m by simp
  have bl': "bl < length (heap st')"
    using bl by (simp add: st'_def)
  have "lookup st' bl = Some (ListObj (bs @ [b]))"
    using look [of bl] by simp
  then have "borrow_book m b st' = (Inr (), st'\<lparr>heap := (heap st')[bl := ListObj ((bs @ [b]) @ [b])]\<rparr>)"
    using m' by (rule borrow_book_run [rotated])
  then have again: "lookup (snd (borrow_book m b st')) bl = Some (ListObj (bs @ [b, b]))"
    using bl' by (simp add: lookup_heap_update)
  have libs: "lookup st' l = Some (LibraryObj name lb) \<and> lookup st' lb = lookup st lb"
    if l: "lookup st l = Some (LibraryObj name lb)" for l name lb
  proof -
    have llt: "l < length (heap st)" and lob: "heap st ! l = LibraryObj name lb"
      using lookup_SomeD [OF l] by simp_all
    have "lb \<noteq> bl"
      using lists_owned_distinct [OF inv llt mlt lob mob] .
    moreover have "l \<noteq> bl"
      using lob bs by auto
    ultimately show ?thesis
      using look l by simp
  qed
  show ?thesis
    using lbl run look m' again libs by (intro exI [of _ bs]) (simp add: st'_def)
qed

theorem borrow_book_appends_only_witness:
  "lookup (run_calls sample_calls init_state) 5 = Some (LibraryMemberObj 1 4)
   \<and> lookup (snd (borrow_book 5 0 (run_calls sample_calls init_state))) 4 = Some (ListObj [0])
   \<and> lookup (snd (borrow_book 5 0 (run_calls sample_calls init_state))) 2 = Some (ListObj [0])"
proof -
  have m: "lookup (run_calls sample_calls init_state) 5 = Some (LibraryMemberObj 1 4)"
    by (simp add: lookup_def sample_heap)
  have l: "lookup (run_calls sample_calls init_state) 3 = Some (LibraryObj ''City Library'' 2)"
    by (simp add: lookup_def sample_heap)
  have e: "lookup (run_calls sample_calls init_state) 4 = Some (ListObj [])"
    by (simp add: lookup_def sample_heap)
  have b: "lookup (run_calls sample_calls init_state) 2 = Some (ListObj [0])"
    by (simp add: lookup_def sample_heap)
  show ?thesis
    using borrow_book_appends_only [OF refl m, of 0] m l e b by auto
qed

end
